theory Spec2Isabelle
  imports Main "HOL-Library.AList"
begin

section \<open>The Pardot client (tap\_pardot/client.py)\<close>

text \<open>
  A shallow embedding of \<^verbatim>\<open>tap_pardot/client.py\<close>. The client talks to two
  external parties: the Pardot HTTP API (through \<^verbatim>\<open>requests\<close>) and a Redis counter.
  Both are made explicit:
  \<^item> the remote side is a function from the history of transport calls (the current one
    last) to what the transport returns: a response, or nothing when \<^verbatim>\<open>requests\<close>
    raises a connection error;
  \<^item> the Redis value under the client's key, the session fields \<^verbatim>\<open>api_key\<close> and
    \<^verbatim>\<open>api_version\<close> and the trace of transport calls are the state that every
    method takes and returns.
  Every exception of the source is a value of the type \<open>error\<close>. The Redis server is
  taken to be reachable; sleeping between backoff attempts and logging are left out.
\<close>

subsection \<open>JSON values and the Python operations on them\<close>

text \<open>What \<^verbatim>\<open>response.json()\<close> returns. A JSON object is a Python dict, kept as an
  association list; JSON numbers are integers here (Pardot's error codes are).\<close>

datatype json =
    JNull
  | JBool bool
  | JInt int
  | JStr string
  | JList "json list"
  | JObj "(string \<times> json) list"

datatype error =
    Pardot5xxError
  | PardotException (code: json) (activity: string) (err_message: json) (response: json)
  | PardotUserLimitReached
  | HTTPError int
  | ConnectionError
  | JSONDecodeError
  | KeyError string
  | TypeError
  | AttributeError

text \<open>Python truthiness (\<^verbatim>\<open>if x:\<close>, \<^verbatim>\<open>x or y\<close>).\<close>

fun truthy :: "json \<Rightarrow> bool" where
  "truthy JNull = False"
| "truthy (JBool b) = b"
| "truthy (JInt n) = (n \<noteq> 0)"
| "truthy (JStr s) = (s \<noteq> [])"
| "truthy (JList xs) = (xs \<noteq> [])"
| "truthy (JObj kvs) = (kvs \<noteq> [])"

text \<open>\<^verbatim>\<open>x == n\<close> for an integer literal \<^verbatim>\<open>n\<close>: Python's \<^verbatim>\<open>True\<close> equals 1 and
  \<^verbatim>\<open>False\<close> equals 0.\<close>

fun py_eq_int :: "json \<Rightarrow> int \<Rightarrow> bool" where
  "py_eq_int (JInt m) n = (m = n)"
| "py_eq_int (JBool b) n = ((if b then 1 else 0) = n)"
| "py_eq_int _ n = False"

text \<open>\<^verbatim>\<open>x.get(k, d)\<close>: only a dict has the method; a missing key gives the
  default, which is \<^verbatim>\<open>None\<close> for \<^verbatim>\<open>x.get(k)\<close>.\<close>

fun py_get_default :: "json \<Rightarrow> string \<Rightarrow> json \<Rightarrow> error + json" where
  "py_get_default (JObj kvs) k d = Inr (case map_of kvs k of None \<Rightarrow> d | Some v \<Rightarrow> v)"
| "py_get_default _ k d = Inl AttributeError"

definition py_get :: "json \<Rightarrow> string \<Rightarrow> error + json" where
  "py_get x k = py_get_default x k JNull"

text \<open>\<^verbatim>\<open>x[k]\<close> for a string key: a dict raises KeyError on a missing key, every other
  JSON value raises TypeError.\<close>

fun py_subscript :: "json \<Rightarrow> string \<Rightarrow> error + json" where
  "py_subscript (JObj kvs) k = (case map_of kvs k of None \<Rightarrow> Inl (KeyError k) | Some v \<Rightarrow> Inr v)"
| "py_subscript _ k = Inl TypeError"

text \<open>\<^verbatim>\<open>content["@attributes"]["err_code"]\<close>\<close>

definition err_code_of :: "json \<Rightarrow> error + json" where
  "err_code_of content =
     (case py_subscript content ''@attributes'' of
        Inl e \<Rightarrow> Inl e
      | Inr attrs \<Rightarrow> py_subscript attrs ''err_code'')"

text \<open>\<^verbatim>\<open>PardotException.__init__\<close>: the code is read again from the response content,
  with \<^verbatim>\<open>.get("@attributes", {}).get("err_code")\<close>. The message string
  \<^verbatim>\<open>"Pardot returned error code {} while {}. Message: {}"\<close> is kept as its three
  arguments: the first is the argument \<open>error_code\<close>, the other two are the fields
  \<open>activity\<close> and \<open>err_message\<close>.\<close>

definition new_PardotException :: "json \<Rightarrow> string \<Rightarrow> json \<Rightarrow> json \<Rightarrow> error" where
  "new_PardotException error_code act error_message response_content =
     (case py_get_default response_content ''@attributes'' (JObj []) of
        Inl e \<Rightarrow> e
      | Inr attrs \<Rightarrow>
          (case py_get attrs ''err_code'' of
             Inl e \<Rightarrow> e
           | Inr c \<Rightarrow> PardotException c act error_message response_content))"

subsection \<open>Exceptions and the retry predicate\<close>

text \<open>\<^verbatim>\<open>is_not_retryable_pardot_exception\<close>. An exception without a \<^verbatim>\<open>code\<close>
  attribute makes \<^verbatim>\<open>exc.code\<close> raise AttributeError.\<close>

fun is_not_retryable_pardot_exception :: "error \<Rightarrow> error + bool" where
  "is_not_retryable_pardot_exception Pardot5xxError = Inr False"
| "is_not_retryable_pardot_exception PardotUserLimitReached = Inr True"
| "is_not_retryable_pardot_exception (PardotException c a m r) =
     (if py_eq_int c 66 then Inr False else Inr True)"
| "is_not_retryable_pardot_exception _ = Inl AttributeError"

subsection \<open>Configuration, transport and state\<close>

text \<open>The configuration keys the client reads. \<^verbatim>\<open>daily_limit\<close> is optional
  (\<^verbatim>\<open>config.get("daily_limit", None)\<close>). The account id, the date and the Redis
  address only select the counter; the state below holds that one counter.\<close>

record config =
  email :: string
  password :: string
  user_key :: string
  daily_limit :: "int option"

text \<open>The formatted URL \<^verbatim>\<open>ENDPOINT_BASE + "{}/version/{}/do/<action>"\<close>, kept as the
  values that fill it.\<close>

record url =
  endpoint :: string
  version :: json
  action :: string

type_synonym params = "(string \<times> json) list"

text \<open>A transport call: the login POST with the credentials as form data, or an API
  request with its method, URL, Authorization header (the \<^verbatim>\<open>api_key\<close> and the
  \<^verbatim>\<open>user_key\<close> that fill it) and query parameters.\<close>

datatype request =
    LoginPost string string string
  | ApiRequest string url "json \<times> string" params

record http_response =
  status_code :: int
  body :: "json option"

type_synonym server = "request list \<Rightarrow> http_response option"

record world =
  redis_val :: "int option"
  api_key :: json
  api_version :: json
  sent :: "request list"

definition transport :: "server \<Rightarrow> request \<Rightarrow> world \<Rightarrow> http_response option \<times> world" where
  "transport srv req w = (srv (sent w @ [req]), w\<lparr>sent := sent w @ [req]\<rparr>)"

text \<open>\<^verbatim>\<open>response.raise_for_status()\<close> raises for a status from 400 to 599.\<close>

definition raises_for_status :: "http_response \<Rightarrow> bool" where
  "raises_for_status r = (400 \<le> status_code r \<and> status_code r < 600)"

text \<open>Redis INCR: a missing key counts as 0.\<close>

definition redis_incr :: "world \<Rightarrow> world" where
  "redis_incr w = w\<lparr>redis_val := Some ((case redis_val w of None \<Rightarrow> 0 | Some n \<Rightarrow> n) + 1)\<rparr>"

subsection \<open>The client\<close>

text \<open>\<^verbatim>\<open>Client._check_error\<close>\<close>

definition check_error :: "json \<Rightarrow> string \<Rightarrow> error + unit" where
  "check_error content act =
     (case py_get content ''err'' of
        Inl e \<Rightarrow> Inl e
      | Inr error_message \<Rightarrow>
          if truthy error_message then
            (case err_code_of content of
               Inl e \<Rightarrow> Inl e
             | Inr error_code \<Rightarrow> Inl (new_PardotException error_code act error_message content))
          else Inr ())"

text \<open>\<^verbatim>\<open>Client.login\<close>\<close>

definition login :: "config \<Rightarrow> server \<Rightarrow> world \<Rightarrow> (error + unit) \<times> world" where
  "login cfg srv w =
     (case transport srv (LoginPost (email cfg) (password cfg) (user_key cfg)) w of
        (None, w1) \<Rightarrow> (Inl ConnectionError, w1)
      | (Some r, w1) \<Rightarrow>
          if raises_for_status r then (Inl (HTTPError (status_code r)), w1)
          else
            (case body r of
               None \<Rightarrow> (Inl JSONDecodeError, w1)
             | Some content \<Rightarrow>
                 (case check_error content ''authenticating'' of
                    Inl e \<Rightarrow> (Inl e, w1)
                  | Inr u \<Rightarrow>
                      (let w2 = redis_incr w1 in
                       case py_get content ''version'' of
                         Inl e \<Rightarrow> (Inl e, w2)
                       | Inr v \<Rightarrow>
                           (let w3 = w2\<lparr>api_version := (if truthy v then v else JStr ''3'')\<rparr> in
                            case py_subscript content ''api_key'' of
                              Inl e \<Rightarrow> (Inl e, w3)
                            | Inr k \<Rightarrow> (Inr (), w3\<lparr>api_key := k\<rparr>))))))"

text \<open>The guard of the constructor:
  \<^verbatim>\<open>self.api_calls_limit and num_api_calls_made >= self.api_calls_limit\<close>\<close>

definition limit_reached :: "int option \<Rightarrow> int \<Rightarrow> bool" where
  "limit_reached lim num = (case lim of None \<Rightarrow> False | Some l \<Rightarrow> l \<noteq> 0 \<and> num \<ge> l)"

text \<open>\<^verbatim>\<open>Client.__init__\<close>. A fresh instance has the class attributes
  \<^verbatim>\<open>api_key = None\<close> and \<^verbatim>\<open>api_version = None\<close>.\<close>

definition client_init :: "config \<Rightarrow> server \<Rightarrow> world \<Rightarrow> (error + unit) \<times> world" where
  "client_init cfg srv w =
     (let (num_api_calls_made, w1) =
            (case redis_val w of
               None \<Rightarrow> (0, w\<lparr>redis_val := Some 0\<rparr>)
             | Some n \<Rightarrow> (n, w))
      in if limit_reached (daily_limit cfg) num_api_calls_made
         then (Inl PardotUserLimitReached, w1)
         else login cfg srv w1)"

text \<open>\<^verbatim>\<open>Client._get_auth_header\<close>\<close>

definition get_auth_header :: "config \<Rightarrow> world \<Rightarrow> json \<times> string" where
  "get_auth_header cfg w = (api_key w, user_key cfg)"

text \<open>The guard of \<^verbatim>\<open>_make_request\<close>:
  \<^verbatim>\<open>self.api_calls_limit and num_api_calls_made < self.api_calls_limit\<close>\<close>

definition limit_allows :: "int option \<Rightarrow> int \<Rightarrow> bool" where
  "limit_allows lim num = (case lim of None \<Rightarrow> False | Some l \<Rightarrow> l \<noteq> 0 \<and> num < l)"

text \<open>\<^verbatim>\<open>Client._make_request\<close>. \<^verbatim>\<open>int(self.redis.get(key))\<close> raises TypeError when
  the key is missing.\<close>

definition make_request ::
  "config \<Rightarrow> server \<Rightarrow> string \<Rightarrow> url \<Rightarrow> params \<Rightarrow> world \<Rightarrow> (error + json) \<times> world" where
  "make_request cfg srv method u ps w =
     (case redis_val w of
        None \<Rightarrow> (Inl TypeError, w)
      | Some num_api_calls_made \<Rightarrow>
          if limit_allows (daily_limit cfg) num_api_calls_made then
            (case transport srv (ApiRequest method u (get_auth_header cfg w) ps) w of
               (None, w1) \<Rightarrow> (Inl ConnectionError, w1)
             | (Some r, w1) \<Rightarrow>
                 if status_code r \<ge> 500 then (Inl Pardot5xxError, w1)
                 else if raises_for_status r then (Inl (HTTPError (status_code r)), w1)
                 else
                   (case body r of
                      None \<Rightarrow> (Inl JSONDecodeError, w1)
                    | Some content \<Rightarrow>
                        (case py_get content ''err'' of
                           Inl e \<Rightarrow> (Inl e, w1)
                         | Inr error_message \<Rightarrow>
                             if truthy error_message then
                               (case err_code_of content of
                                  Inl e \<Rightarrow> (Inl e, w1)
                                | Inr error_code \<Rightarrow>
                                    if py_eq_int error_code 1 then
                                      (case login cfg srv w1 of
                                         (Inl e, w2) \<Rightarrow> (Inl e, w2)
                                       | (Inr u1, w2) \<Rightarrow>
                                           (case transport srv
                                                   (ApiRequest method u (get_auth_header cfg w2) ps) w2 of
                                              (None, w3) \<Rightarrow> (Inl ConnectionError, w3)
                                            | (Some r2, w3) \<Rightarrow>
                                                (case body r2 of
                                                   None \<Rightarrow> (Inl JSONDecodeError, w3)
                                                 | Some content2 \<Rightarrow>
                                                     if py_eq_int error_code 122
                                                     then (Inl PardotUserLimitReached, redis_incr w3)
                                                     else (Inr content2, redis_incr w3))))
                                    else if py_eq_int error_code 122
                                    then (Inl PardotUserLimitReached, w1)
                                    else (Inr content, w1))
                             else (Inr content, redis_incr w1))))
          else (Inl PardotUserLimitReached, w))"

text \<open>\<^verbatim>\<open>{"format": "json", "output": "bulk", **kwargs}\<close>: the keyword arguments are
  stored after the two fixed entries, each replacing the value of an entry with its key.\<close>

definition build_params :: "params \<Rightarrow> params" where
  "build_params kwargs =
     foldl (\<lambda>d (k, v). AList.update k v d)
       [(''format'', JStr ''json''), (''output'', JStr ''bulk'')] kwargs"

text \<open>The body of \<^verbatim>\<open>Client.describe\<close>, one attempt of the decorated method.\<close>

definition describe_body :: "config \<Rightarrow> server \<Rightarrow> string \<Rightarrow> params \<Rightarrow> world \<Rightarrow> (error + json) \<times> world" where
  "describe_body cfg srv ep kwargs w =
     (let u = \<lparr>endpoint = ep, version = api_version w, action = ''describe''\<rparr>;
          ps = build_params kwargs
      in case make_request cfg srv ''get'' u ps w of
           (Inl e, w1) \<Rightarrow> (Inl e, w1)
         | (Inr content, w1) \<Rightarrow>
             (case check_error content ''describing endpoint'' of
                Inl e \<Rightarrow> (Inl e, w1)
              | Inr u1 \<Rightarrow> (Inr content, w1)))"

text \<open>The body of \<^verbatim>\<open>Client._fetch\<close>. The URL template has two fields, so
  \<^verbatim>\<open>str.format\<close> ignores the extra positional arguments that \<^verbatim>\<open>format_params\<close>
  adds: they do not reach the URL.\<close>

definition fetch_body ::
  "config \<Rightarrow> server \<Rightarrow> string \<Rightarrow> string \<Rightarrow> json list \<Rightarrow> params \<Rightarrow> world \<Rightarrow> (error + json) \<times> world" where
  "fetch_body cfg srv method ep format_params kwargs w =
     (let u = \<lparr>endpoint = ep, version = api_version w, action = ''query''\<rparr>;
          ps = build_params kwargs
      in case make_request cfg srv method u ps w of
           (Inl e, w1) \<Rightarrow> (Inl e, w1)
         | (Inr content, w1) \<Rightarrow>
             (case check_error content ''retrieving endpoint'' of
                Inl e \<Rightarrow> (Inl e, w1)
              | Inr u1 \<Rightarrow> (Inr content, w1)))"

text \<open>The decorator \<^verbatim>\<open>backoff.on_exception(backoff.expo, (PardotException,
  Pardot5xxError), giveup=is_not_retryable_pardot_exception, jitter=None)\<close> of the
  \<^verbatim>\<open>backoff\<close> library: the method is called again after an exception of one of the
  two classes unless the predicate says to give up; every other exception, and one
  raised by the predicate, propagates. No \<^verbatim>\<open>max_tries\<close> is given, so the loop is
  unbounded: a run that never ends has the value \<open>None\<close>.\<close>

definition caught :: "error \<Rightarrow> bool" where
  "caught e = (case e of PardotException c a m r \<Rightarrow> True | Pardot5xxError \<Rightarrow> True | _ \<Rightarrow> False)"

partial_function (option) on_exception ::
  "(world \<Rightarrow> (error + json) \<times> world) \<Rightarrow> world \<Rightarrow> ((error + json) \<times> world) option" where
  "on_exception target w =
     (case target w of
        (Inr ret, w1) \<Rightarrow> Some (Inr ret, w1)
      | (Inl e, w1) \<Rightarrow>
          if caught e then
            (case is_not_retryable_pardot_exception e of
               Inl e1 \<Rightarrow> Some (Inl e1, w1)
             | Inr giveup \<Rightarrow> if giveup then Some (Inl e, w1) else on_exception target w1)
          else Some (Inl e, w1))"

definition describe :: "config \<Rightarrow> server \<Rightarrow> string \<Rightarrow> params \<Rightarrow> world \<Rightarrow> ((error + json) \<times> world) option" where
  "describe cfg srv ep kwargs = on_exception (describe_body cfg srv ep kwargs)"

definition fetch ::
  "config \<Rightarrow> server \<Rightarrow> string \<Rightarrow> string \<Rightarrow> json list \<Rightarrow> params \<Rightarrow> world \<Rightarrow> ((error + json) \<times> world) option" where
  "fetch cfg srv method ep format_params kwargs = on_exception (fetch_body cfg srv method ep format_params kwargs)"

text \<open>\<^verbatim>\<open>Client.get\<close> and \<^verbatim>\<open>Client.post\<close>\<close>

definition get :: "config \<Rightarrow> server \<Rightarrow> string \<Rightarrow> json list \<Rightarrow> params \<Rightarrow> world \<Rightarrow> ((error + json) \<times> world) option" where
  "get cfg srv ep format_params kwargs = fetch cfg srv ''get'' ep format_params kwargs"

definition post :: "config \<Rightarrow> server \<Rightarrow> string \<Rightarrow> json list \<Rightarrow> params \<Rightarrow> world \<Rightarrow> ((error + json) \<times> world) option" where
  "post cfg srv ep format_params kwargs = fetch cfg srv ''post'' ep format_params kwargs"

subsection \<open>Vocabulary of the properties\<close>

text \<open>A 2xx response.\<close>

definition is_2xx :: "http_response \<Rightarrow> bool" where
  "is_2xx r = (200 \<le> status_code r \<and> status_code r < 300)"

text \<open>The embedded error of a response body, as the client reads it: the body is an
  object with a truthy \<^verbatim>\<open>err\<close> and an \<^verbatim>\<open>err_code\<close> under \<^verbatim>\<open>@attributes\<close>.
  The result is the code and the message.\<close>

definition embedded_error :: "json \<Rightarrow> (json \<times> json) option" where
  "embedded_error content =
     (case py_get content ''err'' of
        Inl e \<Rightarrow> None
      | Inr error_message \<Rightarrow>
          if truthy error_message then
            (case err_code_of content of
               Inl e \<Rightarrow> None
             | Inr error_code \<Rightarrow> Some (error_code, error_message))
          else None)"

text \<open>A body without an embedded error indicator: an object whose \<^verbatim>\<open>err\<close> is
  missing or falsy.\<close>

definition no_error_indicator :: "json \<Rightarrow> bool" where
  "no_error_indicator content =
     (case py_get content ''err'' of Inl e \<Rightarrow> False | Inr error_message \<Rightarrow> \<not> truthy error_message)"

text \<open>A body with an embedded error indicator: an object with a truthy \<^verbatim>\<open>err\<close>.\<close>

definition error_indicator :: "json \<Rightarrow> bool" where
  "error_indicator content =
     (case py_get content ''err'' of Inl e \<Rightarrow> False | Inr error_message \<Rightarrow> truthy error_message)"

text \<open>The exceptions after which the backoff wrapper calls the method again: those it
  catches and for which its predicate does not give up.\<close>

definition wrapper_retries :: "error \<Rightarrow> bool" where
  "wrapper_retries e = (caught e \<and> is_not_retryable_pardot_exception e = Inr False)"

text \<open>The transport calls made between two states.\<close>

definition new_requests :: "world \<Rightarrow> world \<Rightarrow> request list" where
  "new_requests w w1 = drop (length (sent w)) (sent w1)"

text \<open>A remote side that answers the k-th transport call with the k-th entry of a
  script, and fails to connect afterwards.\<close>

definition scripted :: "http_response option list \<Rightarrow> server" where
  "scripted rs trace = (case drop (length trace - 1) rs of [] \<Rightarrow> None | r # rest \<Rightarrow> r)"

text \<open>A call of one of the three public methods, with its arguments.\<close>

datatype call =
    Describe string params
  | Get string "json list" params
  | Post string "json list" params

text \<open>One attempt of the call (the body of the decorated method), and the call itself.\<close>

fun call_attempt :: "config \<Rightarrow> server \<Rightarrow> call \<Rightarrow> world \<Rightarrow> (error + json) \<times> world" where
  "call_attempt cfg srv (Describe ep kwargs) = describe_body cfg srv ep kwargs"
| "call_attempt cfg srv (Get ep format_params kwargs) = fetch_body cfg srv ''get'' ep format_params kwargs"
| "call_attempt cfg srv (Post ep format_params kwargs) = fetch_body cfg srv ''post'' ep format_params kwargs"

fun invoke :: "config \<Rightarrow> server \<Rightarrow> call \<Rightarrow> world \<Rightarrow> ((error + json) \<times> world) option" where
  "invoke cfg srv (Describe ep kwargs) = describe cfg srv ep kwargs"
| "invoke cfg srv (Get ep format_params kwargs) = get cfg srv ep format_params kwargs"
| "invoke cfg srv (Post ep format_params kwargs) = post cfg srv ep format_params kwargs"

text \<open>What the call passes to \<^verbatim>\<open>_make_request\<close> and to \<^verbatim>\<open>_check_error\<close>.\<close>

fun call_method :: "call \<Rightarrow> string" where
  "call_method (Describe ep kwargs) = ''get''"
| "call_method (Get ep format_params kwargs) = ''get''"
| "call_method (Post ep format_params kwargs) = ''post''"

fun call_url :: "call \<Rightarrow> world \<Rightarrow> url" where
  "call_url (Describe ep kwargs) w = \<lparr>endpoint = ep, version = api_version w, action = ''describe''\<rparr>"
| "call_url (Get ep format_params kwargs) w = \<lparr>endpoint = ep, version = api_version w, action = ''query''\<rparr>"
| "call_url (Post ep format_params kwargs) w = \<lparr>endpoint = ep, version = api_version w, action = ''query''\<rparr>"

fun call_kwargs :: "call \<Rightarrow> params" where
  "call_kwargs (Describe ep kwargs) = kwargs"
| "call_kwargs (Get ep format_params kwargs) = kwargs"
| "call_kwargs (Post ep format_params kwargs) = kwargs"

fun call_activity :: "call \<Rightarrow> string" where
  "call_activity (Describe ep kwargs) = ''describing endpoint''"
| "call_activity (Get ep format_params kwargs) = ''retrieving endpoint''"
| "call_activity (Post ep format_params kwargs) = ''retrieving endpoint''"

text \<open>The API request of a call, as sent from a state.\<close>

definition call_request :: "config \<Rightarrow> call \<Rightarrow> url \<Rightarrow> world \<Rightarrow> request" where
  "call_request cfg c u w =
     ApiRequest (call_method c) u (get_auth_header cfg w) (build_params (call_kwargs c))"

text \<open>The login request.\<close>

definition login_request :: "config \<Rightarrow> request" where
  "login_request cfg = LoginPost (email cfg) (password cfg) (user_key cfg)"

text \<open>What \<^verbatim>\<open>_make_request\<close> does after a first response with embedded error
  code 1, from the state that follows the first request: the re-login, the second
  request, the increment and the return of the second body.\<close>

definition after_reauth ::
  "config \<Rightarrow> server \<Rightarrow> string \<Rightarrow> url \<Rightarrow> params \<Rightarrow> world \<Rightarrow> (error + json) \<times> world" where
  "after_reauth cfg srv m u ps w1 =
     (case login cfg srv w1 of
        (Inl e, w2) \<Rightarrow> (Inl e, w2)
      | (Inr x, w2) \<Rightarrow>
          (case srv (sent w2 @ [ApiRequest m u (get_auth_header cfg w2) ps]) of
             None \<Rightarrow> (Inl ConnectionError,
                       w2\<lparr>sent := sent w2 @ [ApiRequest m u (get_auth_header cfg w2) ps]\<rparr>)
           | Some r2 \<Rightarrow>
               (case body r2 of
                  None \<Rightarrow> (Inl JSONDecodeError,
                            w2\<lparr>sent := sent w2 @ [ApiRequest m u (get_auth_header cfg w2) ps]\<rparr>)
                | Some content2 \<Rightarrow>
                    (Inr content2,
                     redis_incr (w2\<lparr>sent := sent w2 @ [ApiRequest m u (get_auth_header cfg w2) ps]\<rparr>)))))"

subsection \<open>Example values\<close>

definition cfg_limit5 :: config where
  "cfg_limit5 = \<lparr>email = ''me@example.com'', password = ''secret'', user_key = ''uk'',
                  daily_limit = Some 5\<rparr>"

definition cfg_no_limit :: config where
  "cfg_no_limit = \<lparr>email = ''me@example.com'', password = ''secret'', user_key = ''uk'',
                    daily_limit = None\<rparr>"

text \<open>The state before the constructor runs, with no counter in Redis, and a state of a
  logged-in client with a given count.\<close>

definition w_fresh :: world where
  "w_fresh = \<lparr>redis_val = None, api_key = JNull, api_version = JNull, sent = []\<rparr>"

definition w_session :: "int \<Rightarrow> world" where
  "w_session n = \<lparr>redis_val = Some n, api_key = JStr ''key0'', api_version = JStr ''3'', sent = []\<rparr>"

definition ok_response :: "json \<Rightarrow> http_response option" where
  "ok_response b = Some \<lparr>status_code = 200, body = Some b\<rparr>"

definition status_response :: "int \<Rightarrow> http_response option" where
  "status_response st = Some \<lparr>status_code = st, body = None\<rparr>"

text \<open>\<^verbatim>\<open>{"err": msg, "@attributes": {"err_code": code}}\<close>\<close>

definition err_body :: "string \<Rightarrow> int \<Rightarrow> json" where
  "err_body msg cd = JObj [(''err'', JStr msg), (''@attributes'', JObj [(''err_code'', JInt cd)])]"

definition login_body :: json where
  "login_body = JObj [(''api_key'', JStr ''key1''), (''version'', JInt 4)]"

definition payload :: json where
  "payload = JObj [(''result'', JObj [(''total_results'', JInt 0)])]"

section \<open>Properties\<close>

subsection \<open>Python values\<close>

lemma py_eq_int_1_not_122: "py_eq_int c 1 \<Longrightarrow> \<not> py_eq_int c 122"
  by (cases c) (auto split: if_splits)

lemma err_code_of_obj:
  "err_code_of content = Inr c \<Longrightarrow>
   \<exists>kvs avs. content = JObj kvs \<and> map_of kvs ''@attributes'' = Some (JObj avs) \<and> map_of avs ''err_code'' = Some c"
  unfolding err_code_of_def
  apply (cases content; simp split: option.splits)
  subgoal for kvs a by (cases a; simp split: option.splits)
  done

lemma new_PardotException_code:
  "err_code_of content = Inr c \<Longrightarrow>
   new_PardotException c act m content = PardotException c act m content"
  by (auto dest!: err_code_of_obj simp: new_PardotException_def py_get_def)

lemma embedded_errorD:
  "embedded_error content = Some (c, m) \<Longrightarrow>
   py_get content ''err'' = Inr m \<and> truthy m \<and> err_code_of content = Inr c"
  by (auto simp: embedded_error_def split: sum.splits if_splits)

lemma check_error_embedded:
  "embedded_error content = Some (c, m) \<Longrightarrow>
   check_error content act = Inl (PardotException c act m content)"
  by (auto simp: embedded_error_def check_error_def new_PardotException_code split: sum.splits if_splits)

lemma check_error_none:
  "no_error_indicator content \<Longrightarrow> check_error content act = Inr ()"
  by (auto simp: no_error_indicator_def check_error_def split: sum.splits)

lemma is_2xx_passes: "is_2xx r \<Longrightarrow> \<not> status_code r \<ge> 500 \<and> \<not> raises_for_status r"
  by (simp add: is_2xx_def raises_for_status_def)

subsection \<open>The backoff wrapper\<close>

lemma on_exception_return:
  "target w = (Inr v, w1) \<Longrightarrow> on_exception target w = Some (Inr v, w1)"
  by (subst on_exception.simps) simp

lemma on_exception_propagate:
  "target w = (Inl e, w1) \<Longrightarrow> \<not> caught e \<Longrightarrow> on_exception target w = Some (Inl e, w1)"
  by (subst on_exception.simps) simp

lemma on_exception_giveup:
  "target w = (Inl e, w1) \<Longrightarrow> is_not_retryable_pardot_exception e = Inr True \<Longrightarrow>
   on_exception target w = Some (Inl e, w1)"
  by (subst on_exception.simps) simp

lemma on_exception_retry:
  "target w = (Inl e, w1) \<Longrightarrow> caught e \<Longrightarrow> is_not_retryable_pardot_exception e = Inr False \<Longrightarrow>
   on_exception target w = on_exception target w1"
  by (subst on_exception.simps) simp

subsection \<open>Login\<close>

lemma login_sent:
  "sent (snd (login cfg srv w)) = sent w @ [LoginPost (email cfg) (password cfg) (user_key cfg)]"
  by (simp add: login_def transport_def redis_incr_def Let_def split: option.splits sum.splits)

lemma login_embedded_error:
  assumes "srv (sent w @ [LoginPost (email cfg) (password cfg) (user_key cfg)]) = Some r"
    and "\<not> raises_for_status r" and "body r = Some content"
    and "embedded_error content = Some (c, m)"
  shows "login cfg srv w =
           (Inl (PardotException c ''authenticating'' m content),
            w\<lparr>sent := sent w @ [LoginPost (email cfg) (password cfg) (user_key cfg)]\<rparr>)"
  using assms by (simp add: login_def transport_def check_error_embedded)

lemma login_success:
  assumes "login cfg srv w = (Inr x, w1)"
  shows "redis_val w1 = Some ((case redis_val w of None \<Rightarrow> 0 | Some n \<Rightarrow> n) + 1)
       \<and> sent w1 = sent w @ [LoginPost (email cfg) (password cfg) (user_key cfg)]"
  using assms
  by (auto simp: login_def transport_def redis_incr_def Let_def split: option.splits sum.splits if_splits)

lemma client_init_counter_present:
  "client_init cfg srv w = (res, w1) \<Longrightarrow> redis_val w1 \<noteq> None"
  by (auto simp: client_init_def login_def transport_def redis_incr_def Let_def
      split: option.splits sum.splits if_splits prod.splits)

subsection \<open>The request executor, by its first response\<close>

lemma quota_guard_refuses:
  "redis_val w = Some n \<Longrightarrow> \<not> limit_allows (daily_limit cfg) n \<Longrightarrow>
   make_request cfg srv m u ps w = (Inl PardotUserLimitReached, w)"
  by (simp add: make_request_def)

lemma make_request_connection_error:
  assumes "redis_val w = Some n" and "limit_allows (daily_limit cfg) n"
    and "srv (sent w @ [ApiRequest m u (get_auth_header cfg w) ps]) = None"
  shows "make_request cfg srv m u ps w =
           (Inl ConnectionError, w\<lparr>sent := sent w @ [ApiRequest m u (get_auth_header cfg w) ps]\<rparr>)"
  using assms by (simp add: make_request_def transport_def)

lemma make_request_5xx:
  assumes "redis_val w = Some n" and "limit_allows (daily_limit cfg) n"
    and "srv (sent w @ [ApiRequest m u (get_auth_header cfg w) ps]) = Some r"
    and "status_code r \<ge> 500"
  shows "make_request cfg srv m u ps w =
           (Inl Pardot5xxError, w\<lparr>sent := sent w @ [ApiRequest m u (get_auth_header cfg w) ps]\<rparr>)"
  using assms by (simp add: make_request_def transport_def)

lemma make_request_4xx:
  assumes "redis_val w = Some n" and "limit_allows (daily_limit cfg) n"
    and "srv (sent w @ [ApiRequest m u (get_auth_header cfg w) ps]) = Some r"
    and "400 \<le> status_code r" and "status_code r < 500"
  shows "make_request cfg srv m u ps w =
           (Inl (HTTPError (status_code r)),
            w\<lparr>sent := sent w @ [ApiRequest m u (get_auth_header cfg w) ps]\<rparr>)"
  using assms by (simp add: make_request_def transport_def raises_for_status_def)

lemma make_request_success:
  assumes "redis_val w = Some n" and "limit_allows (daily_limit cfg) n"
    and "srv (sent w @ [ApiRequest m u (get_auth_header cfg w) ps]) = Some r"
    and "status_code r < 400" and "body r = Some content"
    and "no_error_indicator content"
  shows "make_request cfg srv m u ps w =
           (Inr content,
            w\<lparr>sent := sent w @ [ApiRequest m u (get_auth_header cfg w) ps], redis_val := Some (n + 1)\<rparr>)"
  using assms
  by (auto simp: make_request_def transport_def raises_for_status_def no_error_indicator_def
      redis_incr_def split: sum.splits)

lemma make_request_embedded_other:
  assumes "redis_val w = Some n" and "limit_allows (daily_limit cfg) n"
    and "srv (sent w @ [ApiRequest m u (get_auth_header cfg w) ps]) = Some r"
    and "status_code r < 400" and "body r = Some content"
    and "embedded_error content = Some (c, msg)"
    and "\<not> py_eq_int c 1" and "\<not> py_eq_int c 122"
  shows "make_request cfg srv m u ps w =
           (Inr content, w\<lparr>sent := sent w @ [ApiRequest m u (get_auth_header cfg w) ps]\<rparr>)"
  using assms embedded_errorD [OF assms(6)]
  by (simp add: make_request_def transport_def raises_for_status_def)

lemma make_request_embedded_122:
  assumes "redis_val w = Some n" and "limit_allows (daily_limit cfg) n"
    and "srv (sent w @ [ApiRequest m u (get_auth_header cfg w) ps]) = Some r"
    and "status_code r < 400" and "body r = Some content"
    and "embedded_error content = Some (c, msg)"
    and "py_eq_int c 122"
  shows "make_request cfg srv m u ps w =
           (Inl PardotUserLimitReached,
            w\<lparr>sent := sent w @ [ApiRequest m u (get_auth_header cfg w) ps]\<rparr>)"
proof -
  have "\<not> py_eq_int c 1"
    using assms(7) py_eq_int_1_not_122 by blast
  then show ?thesis
    using assms embedded_errorD [OF assms(6)]
    by (simp add: make_request_def transport_def raises_for_status_def)
qed

lemma make_request_embedded_1:
  assumes "redis_val w = Some n" and "limit_allows (daily_limit cfg) n"
    and "srv (sent w @ [ApiRequest m u (get_auth_header cfg w) ps]) = Some r"
    and "status_code r < 400" and "body r = Some content"
    and "embedded_error content = Some (c, msg)"
    and "py_eq_int c 1"
  shows "make_request cfg srv m u ps w =
           after_reauth cfg srv m u ps (w\<lparr>sent := sent w @ [ApiRequest m u (get_auth_header cfg w) ps]\<rparr>)"
proof -
  have n122: "\<not> py_eq_int c 122"
    using assms(7) py_eq_int_1_not_122 by blast
  show ?thesis
    using assms n122 embedded_errorD [OF assms(6)]
    by (simp add: make_request_def transport_def raises_for_status_def after_reauth_def
        split: prod.splits sum.splits option.splits)
qed

subsection \<open>The public methods\<close>

lemma call_attempt_eq:
  "call_attempt cfg srv c w =
     (case make_request cfg srv (call_method c) (call_url c w) (build_params (call_kwargs c)) w of
        (Inl e, w1) \<Rightarrow> (Inl e, w1)
      | (Inr content, w1) \<Rightarrow>
          (case check_error content (call_activity c) of
             Inl e \<Rightarrow> (Inl e, w1)
           | Inr x \<Rightarrow> (Inr content, w1)))"
  by (cases c) (auto simp: describe_body_def fetch_body_def split: prod.splits sum.splits)

lemma invoke_eq: "invoke cfg srv c = on_exception (call_attempt cfg srv c)"
  by (cases c) (auto simp: describe_def get_def post_def fetch_def fun_eq_iff intro!: arg_cong [where f = "\<lambda>t. on_exception t _"])

lemma invoke_return:
  "call_attempt cfg srv c w = (Inr v, w1) \<Longrightarrow> invoke cfg srv c w = Some (Inr v, w1)"
  by (simp add: invoke_eq on_exception_return)

lemma invoke_propagate:
  "call_attempt cfg srv c w = (Inl e, w1) \<Longrightarrow> \<not> caught e \<Longrightarrow> invoke cfg srv c w = Some (Inl e, w1)"
  by (simp add: invoke_eq on_exception_propagate)

lemma invoke_giveup:
  "call_attempt cfg srv c w = (Inl e, w1) \<Longrightarrow> is_not_retryable_pardot_exception e = Inr True \<Longrightarrow>
   invoke cfg srv c w = Some (Inl e, w1)"
  by (simp add: invoke_eq on_exception_giveup)

lemma call_attempt_raise:
  "make_request cfg srv (call_method c) (call_url c w) (build_params (call_kwargs c)) w = (Inl e, w1) \<Longrightarrow>
   call_attempt cfg srv c w = (Inl e, w1)"
  by (simp add: call_attempt_eq)

lemma call_attempt_refused:
  assumes "redis_val w = Some n" and "\<not> limit_allows (daily_limit cfg) n"
  shows "call_attempt cfg srv c w = (Inl PardotUserLimitReached, w)"
  by (rule call_attempt_raise) (rule quota_guard_refuses [OF assms])

lemma invoke_refused:
  assumes "redis_val w = Some n" and "\<not> limit_allows (daily_limit cfg) n"
  shows "invoke cfg srv c w = Some (Inl PardotUserLimitReached, w)"
  by (rule invoke_propagate [OF call_attempt_refused [OF assms]]) (simp add: caught_def)

lemma wrapper_retries_iff:
  "wrapper_retries e = (e = Pardot5xxError \<or> (\<exists>a m r. e = PardotException (JInt 66) a m r))"
proof (cases e)
  case (PardotException cd a m r)
  then show ?thesis
    by (cases cd) (auto simp: wrapper_retries_def caught_def split: if_splits)
qed (simp_all add: wrapper_retries_def caught_def)

lemma on_exception_after_raise:
  assumes "target w = (Inl e, w1)"
  shows "on_exception target w = (if wrapper_retries e then on_exception target w1 else Some (Inl e, w1))"
proof (cases "caught e")
  case False
  then show ?thesis
    using assms by (simp add: on_exception_propagate wrapper_retries_def)
next
  case True
  then have "\<exists>b. is_not_retryable_pardot_exception e = Inr b"
    by (cases e) (auto simp: caught_def)
  then obtain b where b: "is_not_retryable_pardot_exception e = Inr b"
    by blast
  show ?thesis
  proof (cases b)
    case True
    then show ?thesis
      using assms b by (simp add: on_exception_giveup wrapper_retries_def)
  next
    case False
    then show ?thesis
      using assms b \<open>caught e\<close> by (simp add: on_exception_retry wrapper_retries_def)
  qed
qed

lemma invoke_after_raise:
  "call_attempt cfg srv c w = (Inl e, w1) \<Longrightarrow>
   invoke cfg srv c w = (if wrapper_retries e then invoke cfg srv c w1 else Some (Inl e, w1))"
  by (simp only: invoke_eq on_exception_after_raise)

lemma check_error_indicator:
  "error_indicator content \<Longrightarrow> \<exists>e. check_error content act = Inl e"
  by (auto simp: error_indicator_def check_error_def split: sum.splits)

lemma login_error_indicator:
  assumes "srv (sent w @ [login_request cfg]) = Some r"
    and "\<not> raises_for_status r" and "body r = Some content"
    and "error_indicator content"
  shows "\<exists>e. login cfg srv w = (Inl e, w\<lparr>sent := sent w @ [login_request cfg]\<rparr>)
             \<and> check_error content ''authenticating'' = Inl e"
proof -
  obtain e where e: "check_error content ''authenticating'' = Inl e"
    using check_error_indicator [OF assms(4)] by blast
  have "login cfg srv w = (Inl e, w\<lparr>sent := sent w @ [login_request cfg]\<rparr>)"
    using assms(1-3) e by (simp add: login_def transport_def login_request_def)
  then show ?thesis
    using e by blast
qed

section \<open>The claims\<close>

subsection \<open>The retry predicate\<close>

text \<open>
  C6. The retry-eligibility predicate \<^verbatim>\<open>is_not_retryable_pardot_exception\<close> answers
  for every exception the backoff wrapper passes to it: a 5xx server error is retryable
  (the predicate is false), the quota-exhausted exception is not retryable (true), an API
  exception whose code equals 66 is retryable, and every other API exception is not
  retryable. The comparison \<^verbatim>\<open>exc.code == 66\<close> holds for the integer 66 only.
\<close>

theorem retry_predicate_classification:
  "is_not_retryable_pardot_exception Pardot5xxError = Inr False
   \<and> is_not_retryable_pardot_exception PardotUserLimitReached = Inr True
   \<and> is_not_retryable_pardot_exception (PardotException (JInt 66) act msg content) = Inr False
   \<and> is_not_retryable_pardot_exception (PardotException cd act msg content) = Inr (\<not> py_eq_int cd 66)
   \<and> py_eq_int cd 66 = (cd = JInt 66)"
  by (cases cd) (auto split: if_splits)

subsection \<open>The local daily limit\<close>

text \<open>
  C2. When a daily limit is configured and the count in the Quota Store is greater than
  or equal to it, the request executor \<^verbatim>\<open>_make_request\<close> raises
  \<^verbatim>\<open>PardotUserLimitReached\<close> and the state it leaves is the state it found: no
  transport call is made. The same exception leaves \<^verbatim>\<open>get\<close>, \<^verbatim>\<open>post\<close> and
  \<^verbatim>\<open>describe\<close>, which the backoff wrapper does not retry.
\<close>

theorem quota_exceeded_no_transport:
  assumes "daily_limit cfg = Some l" and "redis_val w = Some n" and "l \<le> n"
  shows "make_request cfg srv m u ps w = (Inl PardotUserLimitReached, w)
       \<and> new_requests w (snd (make_request cfg srv m u ps w)) = []
       \<and> invoke cfg srv c w = Some (Inl PardotUserLimitReached, w)"
proof -
  have g: "\<not> limit_allows (daily_limit cfg) n"
    using assms by (simp add: limit_allows_def)
  show ?thesis
    by (simp add: quota_guard_refuses [OF assms(2) g] invoke_refused [OF assms(2) g] new_requests_def)
qed

text \<open>The limit is 5 and the count is 5: the call is refused although the remote side
  would have answered.\<close>

theorem quota_exceeded_no_transport_witness:
  "daily_limit cfg_limit5 = Some 5 \<and> redis_val (w_session 5) = Some 5 \<and> (5::int) \<le> 5
   \<and> make_request cfg_limit5 (scripted [ok_response payload]) ''get''
        \<lparr>endpoint = ''prospect'', version = JStr ''3'', action = ''query''\<rparr> [] (w_session 5)
      = (Inl PardotUserLimitReached, w_session 5)
   \<and> invoke cfg_limit5 (scripted [ok_response payload]) (Get ''prospect'' [] []) (w_session 5)
      = Some (Inl PardotUserLimitReached, w_session 5)"
proof -
  have h1: "daily_limit cfg_limit5 = Some 5" by (simp add: cfg_limit5_def)
  have h2: "redis_val (w_session 5) = Some 5" by (simp add: w_session_def)
  have h3: "(5::int) \<le> 5" by simp
  show ?thesis
    using quota_exceeded_no_transport [OF h1 h2 h3, where c = "Get ''prospect'' [] []"] h1 h2
    by (simp del: invoke.simps)
qed

text \<open>
  C3. Without a configured daily limit (the key \<^verbatim>\<open>daily_limit\<close> absent, or 0) the
  guard of \<^verbatim>\<open>_make_request\<close> is never passed: every call of \<^verbatim>\<open>_make_request\<close>,
  and so every \<^verbatim>\<open>get\<close>, \<^verbatim>\<open>post\<close> and \<^verbatim>\<open>describe\<close>, raises
  \<^verbatim>\<open>PardotUserLimitReached\<close> and leaves the state as it found it, without a
  transport call. The counter is present in Redis: the constructor sets it
  (\<open>client_init_counter_present\<close>), and the refused call does not change the state.
\<close>

theorem no_limit_every_call_refused:
  assumes "daily_limit cfg = None \<or> daily_limit cfg = Some 0" and "redis_val w = Some n"
  shows "make_request cfg srv m u ps w = (Inl PardotUserLimitReached, w)
       \<and> new_requests w (snd (make_request cfg srv m u ps w)) = []
       \<and> invoke cfg srv c w = Some (Inl PardotUserLimitReached, w)"
proof -
  have g: "\<not> limit_allows (daily_limit cfg) n"
    using assms(1) by (auto simp: limit_allows_def)
  show ?thesis
    by (simp add: quota_guard_refuses [OF assms(2) g] invoke_refused [OF assms(2) g] new_requests_def)
qed

text \<open>A client is constructed without a limit; its first \<^verbatim>\<open>describe\<close> is refused.\<close>

theorem no_limit_every_call_refused_witness:
  "client_init cfg_no_limit (scripted [ok_response login_body, ok_response payload]) w_fresh
     = (Inr (), \<lparr>redis_val = Some 1, api_key = JStr ''key1'', api_version = JInt 4,
                  sent = [login_request cfg_no_limit]\<rparr>)
   \<and> invoke cfg_no_limit (scripted [ok_response login_body, ok_response payload])
        (Describe ''prospect'' [])
        \<lparr>redis_val = Some 1, api_key = JStr ''key1'', api_version = JInt 4,
          sent = [login_request cfg_no_limit]\<rparr>
      = Some (Inl PardotUserLimitReached,
              \<lparr>redis_val = Some 1, api_key = JStr ''key1'', api_version = JInt 4,
                sent = [login_request cfg_no_limit]\<rparr>)"
proof -
  have h1: "daily_limit cfg_no_limit = None \<or> daily_limit cfg_no_limit = Some 0"
    by (simp add: cfg_no_limit_def)
  have h2: "redis_val \<lparr>redis_val = Some 1, api_key = JStr ''key1'', api_version = JInt 4,
                  sent = [login_request cfg_no_limit]\<rparr> = Some 1" by simp
  have i: "client_init cfg_no_limit (scripted [ok_response login_body, ok_response payload]) w_fresh
     = (Inr (), \<lparr>redis_val = Some 1, api_key = JStr ''key1'', api_version = JInt 4,
                  sent = [login_request cfg_no_limit]\<rparr>)"
    by (simp add: client_init_def w_fresh_def cfg_no_limit_def limit_reached_def login_def
        transport_def scripted_def ok_response_def raises_for_status_def login_body_def
        check_error_def py_get_def redis_incr_def login_request_def)
  show ?thesis
    using no_limit_every_call_refused [OF h1 h2, where c = "Describe ''prospect'' []"] i
    by (simp del: invoke.simps)
qed

subsection \<open>Login\<close>

text \<open>
  C9. The session pair is meant to be replaced as a whole by a login. On a 200 login
  response without an error indicator and without \<^verbatim>\<open>api_key\<close>, here
  \<^verbatim>\<open>{"version": "4"}\<close>, \<^verbatim>\<open>login\<close> assigns \<^verbatim>\<open>api_version\<close> before
  \<^verbatim>\<open>content["api_key"]\<close> raises KeyError: the client is left with the new
  \<^verbatim>\<open>api_version\<close> ("4" instead of "3") and the old \<^verbatim>\<open>api_key\<close>, and the counter
  is incremented.
\<close>

theorem login_partial_session_update:
  "login cfg_limit5 (scripted [ok_response (JObj [(''version'', JStr ''4'')])]) (w_session 1)
     = (Inl (KeyError ''api_key''),
        \<lparr>redis_val = Some 2, api_key = JStr ''key0'', api_version = JStr ''4'',
          sent = [login_request cfg_limit5]\<rparr>)
   \<and> api_key (w_session 1) = JStr ''key0'' \<and> api_version (w_session 1) = JStr ''3''"
  by (simp add: login_def transport_def scripted_def ok_response_def w_session_def
      raises_for_status_def check_error_def py_get_def redis_incr_def login_request_def)

subsection \<open>Re-authentication\<close>

lemma py_eq_int_1_not_66: "py_eq_int c 1 \<Longrightarrow> \<not> py_eq_int c 66"
  by (cases c) (auto split: if_splits)

lemma after_reauth_login_fails:
  "login cfg srv w1 = (Inl e, w2) \<Longrightarrow> after_reauth cfg srv m u ps w1 = (Inl e, w2)"
  by (simp add: after_reauth_def)

lemma after_reauth_sent:
  "login cfg srv w1 = (Inr x, w2) \<Longrightarrow>
   sent (snd (after_reauth cfg srv m u ps w1))
     = sent w1 @ [login_request cfg, ApiRequest m u (get_auth_header cfg w2) ps]"
  using login_success [of cfg srv w1 x w2]
  by (simp add: after_reauth_def redis_incr_def login_request_def split: option.splits)

lemma after_reauth_returns:
  assumes "login cfg srv w1 = (Inr x, w2)" and "redis_val w1 = Some n"
    and "srv (sent w2 @ [ApiRequest m u (get_auth_header cfg w2) ps]) = Some r2"
    and "body r2 = Some content2"
  shows "after_reauth cfg srv m u ps w1
           = (Inr content2,
              w2\<lparr>sent := sent w2 @ [ApiRequest m u (get_auth_header cfg w2) ps],
                 redis_val := Some (n + 2)\<rparr>)"
  using assms login_success [OF assms(1)]
  by (simp add: after_reauth_def redis_incr_def)

lemma call_attempt_snd:
  "snd (call_attempt cfg srv c w)
     = snd (make_request cfg srv (call_method c) (call_url c w) (build_params (call_kwargs c)) w)"
  by (simp add: call_attempt_eq split: prod.splits sum.splits)

lemma call_attempt_checked:
  "make_request cfg srv (call_method c) (call_url c w) (build_params (call_kwargs c)) w = (Inr content, w1) \<Longrightarrow>
   call_attempt cfg srv c w =
     (case check_error content (call_activity c) of Inl e \<Rightarrow> (Inl e, w1) | Inr x \<Rightarrow> (Inr content, w1))"
  by (simp add: call_attempt_eq)

lemma reauth_attempt:
  assumes "redis_val w = Some n" and "limit_allows (daily_limit cfg) n"
    and "srv (sent w @ [call_request cfg c (call_url c w) w]) = Some r"
    and "is_2xx r" and "body r = Some content"
    and "embedded_error content = Some (cd, msg)" and "py_eq_int cd 1"
  shows "make_request cfg srv (call_method c) (call_url c w) (build_params (call_kwargs c)) w
           = after_reauth cfg srv (call_method c) (call_url c w) (build_params (call_kwargs c))
               (w\<lparr>sent := sent w @ [call_request cfg c (call_url c w) w]\<rparr>)"
proof -
  have st: "status_code r < 400"
    using assms(4) by (simp add: is_2xx_def)
  show ?thesis
    using make_request_embedded_1 [where srv = srv, OF assms(1,2) assms(3) [unfolded call_request_def] st assms(5,6,7)]
    by (simp add: call_request_def)
qed

lemma reauth_recovered:
  assumes "redis_val w = Some n" and "limit_allows (daily_limit cfg) n"
    and "srv (sent w @ [call_request cfg c (call_url c w) w]) = Some r"
    and "is_2xx r" and "body r = Some content"
    and "embedded_error content = Some (cd, msg)" and "py_eq_int cd 1"
    and "login cfg srv (w\<lparr>sent := sent w @ [call_request cfg c (call_url c w) w]\<rparr>) = (Inr x, w2)"
    and "srv (sent w2 @ [call_request cfg c (call_url c w) w2]) = Some r2"
    and "body r2 = Some content2"
  shows "make_request cfg srv (call_method c) (call_url c w) (build_params (call_kwargs c)) w
           = (Inr content2,
              w2\<lparr>sent := sent w2 @ [call_request cfg c (call_url c w) w2], redis_val := Some (n + 2)\<rparr>)"
proof -
  have rv: "redis_val (w\<lparr>sent := sent w @ [call_request cfg c (call_url c w) w]\<rparr>) = Some n"
    using assms(1) by simp
  show ?thesis
    using after_reauth_returns [where srv = srv, OF assms(8) rv assms(9) [unfolded call_request_def] assms(10)]
    by (simp add: reauth_attempt [where srv = srv, OF assms(1-7)] call_request_def)
qed

text \<open>The definitions that a run on concrete values unfolds.\<close>

lemmas run_defs =
  describe_body_def fetch_body_def make_request_def login_def transport_def scripted_def
  ok_response_def status_response_def raises_for_status_def check_error_def py_get_def
  err_code_of_def new_PardotException_def redis_incr_def limit_allows_def get_auth_header_def
  build_params_def login_request_def call_request_def Let_def
  cfg_limit5_def cfg_no_limit_def w_session_def w_fresh_def err_body_def login_body_def payload_def

text \<open>A \<^verbatim>\<open>describe\<close> whose first response carries code 1 and whose re-login is
  answered with status 401: the HTTP error of the login leaves the call, and the second
  request is not sent although the remote side would have answered it.\<close>

theorem relogin_failure_sends_no_retry:
  "invoke cfg_limit5
     (scripted [ok_response (err_body ''Invalid API key'' 1), status_response 401, ok_response payload])
     (Describe ''prospect'' []) (w_session 1)
   = Some (Inl (HTTPError 401),
           \<lparr>redis_val = Some 1, api_key = JStr ''key0'', api_version = JStr ''3'',
             sent = [ApiRequest ''get'' \<lparr>endpoint = ''prospect'', version = JStr ''3'', action = ''describe''\<rparr>
                       (JStr ''key0'', ''uk'') [(''format'', JStr ''json''), (''output'', JStr ''bulk'')],
                     login_request cfg_limit5]\<rparr>)"
proof -
  have "call_attempt cfg_limit5
     (scripted [ok_response (err_body ''Invalid API key'' 1), status_response 401, ok_response payload])
     (Describe ''prospect'' []) (w_session 1)
   = (Inl (HTTPError 401),
           \<lparr>redis_val = Some 1, api_key = JStr ''key0'', api_version = JStr ''3'',
             sent = [ApiRequest ''get'' \<lparr>endpoint = ''prospect'', version = JStr ''3'', action = ''describe''\<rparr>
                       (JStr ''key0'', ''uk'') [(''format'', JStr ''json''), (''output'', JStr ''bulk'')],
                     login_request cfg_limit5]\<rparr>)"
    by (simp add: run_defs)
  then show ?thesis
    by (rule invoke_propagate) (simp add: caught_def)
qed

text \<open>
  C1, as the code has it. Take a call through \<^verbatim>\<open>get\<close>, \<^verbatim>\<open>post\<close> or
  \<^verbatim>\<open>describe\<close> that passes the guard and whose first response is 2xx with embedded
  error code 1. The attempt of the call then makes exactly one re-login, right after the
  first request.
  \<^item> When the re-login raises, the attempt sends nothing more and ends with that
    exception. The exception surfaces to the caller, unless the backoff wrapper retries
    it (an API exception with code 66): then the wrapper starts the call again from the
    state the attempt left.
  \<^item> When the re-login succeeds, exactly one more request follows in the attempt, with
    the method, URL and query parameters of the first and the Authorization header of
    the new session.
  \<^item> When that second response carries embedded error code 1 again, the call raises the
    API exception made from it: the backoff wrapper gives up, and no further login or
    request is made.
\<close>

theorem reauth_once_then_surface:
  assumes "redis_val w = Some n" and "limit_allows (daily_limit cfg) n"
    and "srv (sent w @ [call_request cfg c (call_url c w) w]) = Some r"
    and "is_2xx r" and "body r = Some content"
    and "embedded_error content = Some (cd, msg)" and "py_eq_int cd 1"
    and "login cfg srv (w\<lparr>sent := sent w @ [call_request cfg c (call_url c w) w]\<rparr>) = (lres, w2)"
  shows "new_requests w (snd (call_attempt cfg srv c w))
           = [call_request cfg c (call_url c w) w, login_request cfg]
             @ (case lres of Inl e \<Rightarrow> [] | Inr x \<Rightarrow> [call_request cfg c (call_url c w) w2])
       \<and> (\<forall>e. lres = Inl e \<longrightarrow>
             call_attempt cfg srv c w = (Inl e, w2)
           \<and> invoke cfg srv c w
               = (if wrapper_retries e then invoke cfg srv c w2 else Some (Inl e, w2)))
       \<and> (\<forall>x r2 content2 cd2 msg2.
             lres = Inr x
             \<and> srv (sent w2 @ [call_request cfg c (call_url c w) w2]) = Some r2
             \<and> body r2 = Some content2
             \<and> embedded_error content2 = Some (cd2, msg2) \<and> py_eq_int cd2 1 \<longrightarrow>
             invoke cfg srv c w
               = Some (Inl (PardotException cd2 (call_activity c) msg2 content2),
                       w2\<lparr>sent := sent w2 @ [call_request cfg c (call_url c w) w2],
                          redis_val := Some (n + 2)\<rparr>))"
proof -
  let ?w1 = "w\<lparr>sent := sent w @ [call_request cfg c (call_url c w) w]\<rparr>"
  note mr = reauth_attempt [where srv = srv, OF assms(1-7)]
  have tr: "new_requests w (snd (call_attempt cfg srv c w))
           = [call_request cfg c (call_url c w) w, login_request cfg]
             @ (case lres of Inl e \<Rightarrow> [] | Inr x \<Rightarrow> [call_request cfg c (call_url c w) w2])"
  proof (cases lres)
    case (Inl e)
    have "sent w2 = sent ?w1 @ [login_request cfg]"
      using login_sent [of cfg srv ?w1] assms(8) by (simp add: login_request_def)
    then show ?thesis
      using Inl assms(8)
      by (simp add: call_attempt_snd mr after_reauth_login_fails new_requests_def)
  next
    case (Inr x)
    then show ?thesis
      using after_reauth_sent [of cfg srv ?w1 x w2] assms(8)
      by (simp add: call_attempt_snd mr new_requests_def call_request_def)
  qed
  have fl: "call_attempt cfg srv c w = (Inl e, w2)
           \<and> invoke cfg srv c w
               = (if wrapper_retries e then invoke cfg srv c w2 else Some (Inl e, w2))"
    if "lres = Inl e" for e
  proof -
    have ca: "call_attempt cfg srv c w = (Inl e, w2)"
      using that assms(8) by (simp add: call_attempt_raise mr after_reauth_login_fails)
    show ?thesis
      using ca invoke_after_raise [OF ca] by simp
  qed
  have sf: "invoke cfg srv c w
               = Some (Inl (PardotException cd2 (call_activity c) msg2 content2),
                       w2\<lparr>sent := sent w2 @ [call_request cfg c (call_url c w) w2],
                          redis_val := Some (n + 2)\<rparr>)"
    if "lres = Inr x" and "srv (sent w2 @ [call_request cfg c (call_url c w) w2]) = Some r2"
      and "body r2 = Some content2" and "embedded_error content2 = Some (cd2, msg2)"
      and "py_eq_int cd2 1"
    for x r2 content2 cd2 msg2
  proof -
    have lg: "login cfg srv ?w1 = (Inr x, w2)"
      using that(1) assms(8) by simp
    have ca: "call_attempt cfg srv c w
           = (Inl (PardotException cd2 (call_activity c) msg2 content2),
              w2\<lparr>sent := sent w2 @ [call_request cfg c (call_url c w) w2], redis_val := Some (n + 2)\<rparr>)"
      using call_attempt_checked [OF reauth_recovered [where srv = srv, OF assms(1-7) lg that(2,3)]]
      by (simp add: check_error_embedded [OF that(4)])
    have gu: "is_not_retryable_pardot_exception (PardotException cd2 (call_activity c) msg2 content2) = Inr True"
      using py_eq_int_1_not_66 [OF that(5)] by simp
    show ?thesis
      by (rule invoke_giveup [OF ca gu])
  qed
  show ?thesis
    using tr fl sf by blast
qed

text \<open>A \<^verbatim>\<open>post\<close> answered with code 1, a successful login, and code 1 again; and
  a \<^verbatim>\<open>post\<close> answered with code 1 whose re-login is answered with code 66: the
  wrapper starts the call again, and its second attempt succeeds.\<close>

theorem reauth_once_then_surface_witness:
  "new_requests (w_session 1)
     (snd (call_attempt cfg_limit5
        (scripted [ok_response (err_body ''Invalid API key'' 1), ok_response login_body,
                   ok_response (err_body ''Invalid API key'' 1), ok_response payload])
        (Post ''prospect'' [] []) (w_session 1)))
   = [ApiRequest ''post'' \<lparr>endpoint = ''prospect'', version = JStr ''3'', action = ''query''\<rparr>
        (JStr ''key0'', ''uk'') [(''format'', JStr ''json''), (''output'', JStr ''bulk'')],
      login_request cfg_limit5,
      ApiRequest ''post'' \<lparr>endpoint = ''prospect'', version = JStr ''3'', action = ''query''\<rparr>
        (JStr ''key1'', ''uk'') [(''format'', JStr ''json''), (''output'', JStr ''bulk'')]]
   \<and> invoke cfg_limit5
        (scripted [ok_response (err_body ''Invalid API key'' 1), ok_response login_body,
                   ok_response (err_body ''Invalid API key'' 1), ok_response payload])
        (Post ''prospect'' [] []) (w_session 1)
      = Some (Inl (PardotException (JInt 1) ''retrieving endpoint'' (JStr ''Invalid API key'')
                     (err_body ''Invalid API key'' 1)),
              \<lparr>redis_val = Some 3, api_key = JStr ''key1'', api_version = JInt 4,
                sent = [ApiRequest ''post'' \<lparr>endpoint = ''prospect'', version = JStr ''3'', action = ''query''\<rparr>
                          (JStr ''key0'', ''uk'') [(''format'', JStr ''json''), (''output'', JStr ''bulk'')],
                        login_request cfg_limit5,
                        ApiRequest ''post'' \<lparr>endpoint = ''prospect'', version = JStr ''3'', action = ''query''\<rparr>
                          (JStr ''key1'', ''uk'') [(''format'', JStr ''json''), (''output'', JStr ''bulk'')]]\<rparr>)
   \<and> invoke cfg_limit5
        (scripted [ok_response (err_body ''Invalid API key'' 1), ok_response (err_body ''Too many requests'' 66),
                   ok_response payload])
        (Post ''prospect'' [] []) (w_session 1)
      = Some (Inr payload,
              \<lparr>redis_val = Some 2, api_key = JStr ''key0'', api_version = JStr ''3'',
                sent = [ApiRequest ''post'' \<lparr>endpoint = ''prospect'', version = JStr ''3'', action = ''query''\<rparr>
                          (JStr ''key0'', ''uk'') [(''format'', JStr ''json''), (''output'', JStr ''bulk'')],
                        login_request cfg_limit5,
                        ApiRequest ''post'' \<lparr>endpoint = ''prospect'', version = JStr ''3'', action = ''query''\<rparr>
                          (JStr ''key0'', ''uk'') [(''format'', JStr ''json''), (''output'', JStr ''bulk'')]]\<rparr>)"
proof -
  let ?srv = "scripted [ok_response (err_body ''Invalid API key'' 1), ok_response login_body,
                   ok_response (err_body ''Invalid API key'' 1), ok_response payload]"
  let ?srv66 = "scripted [ok_response (err_body ''Invalid API key'' 1),
                   ok_response (err_body ''Too many requests'' 66), ok_response payload]"
  let ?c = "Post ''prospect'' [] []"
  let ?w = "w_session 1"
  let ?req1 = "call_request cfg_limit5 ?c (call_url ?c ?w) ?w"
  let ?w2 = "\<lparr>redis_val = Some 2, api_key = JStr ''key1'', api_version = JInt 4,
              sent = [?req1, login_request cfg_limit5]\<rparr>"
  let ?v2 = "\<lparr>redis_val = Some 1, api_key = JStr ''key0'', api_version = JStr ''3'',
              sent = [?req1, login_request cfg_limit5]\<rparr>"
  let ?e66 = "PardotException (JInt 66) ''authenticating'' (JStr ''Too many requests'')
                (err_body ''Too many requests'' 66)"
  let ?r = "\<lparr>status_code = 200, body = Some (err_body ''Invalid API key'' 1)\<rparr>"
  have h1: "redis_val ?w = Some 1" by (simp add: w_session_def)
  have h2: "limit_allows (daily_limit cfg_limit5) 1" by (simp add: limit_allows_def cfg_limit5_def)
  have h3: "?srv (sent ?w @ [?req1]) = Some ?r"
    by (simp add: scripted_def w_session_def ok_response_def)
  have k3: "?srv66 (sent ?w @ [?req1]) = Some ?r"
    by (simp add: scripted_def w_session_def ok_response_def)
  have h4: "is_2xx ?r" by (simp add: is_2xx_def)
  have h5: "body ?r = Some (err_body ''Invalid API key'' 1)" by simp
  have h6: "embedded_error (err_body ''Invalid API key'' 1) = Some (JInt 1, JStr ''Invalid API key'')"
    by (simp add: embedded_error_def err_body_def py_get_def err_code_of_def)
  have h7: "py_eq_int (JInt 1) 1" by simp
  have h8: "login cfg_limit5 ?srv (?w\<lparr>sent := sent ?w @ [?req1]\<rparr>) = (Inr (), ?w2)"
    by (simp add: run_defs)
  have k8: "login cfg_limit5 ?srv66 (?w\<lparr>sent := sent ?w @ [?req1]\<rparr>) = (Inl ?e66, ?v2)"
    by (simp add: run_defs)
  have h9: "?srv (sent ?w2 @ [call_request cfg_limit5 ?c (call_url ?c ?w) ?w2]) = Some ?r"
    by (simp add: scripted_def ok_response_def)
  note T = reauth_once_then_surface [where srv = ?srv and c = ?c, OF h1 h2 h3 h4 h5 h6 h7 h8]
  note U = reauth_once_then_surface [where srv = ?srv66 and c = ?c, OF h1 h2 k3 h4 h5 h6 h7 k8]
  have a: "new_requests ?w (snd (call_attempt cfg_limit5 ?srv ?c ?w))
             = [?req1, login_request cfg_limit5, call_request cfg_limit5 ?c (call_url ?c ?w) ?w2]"
    using T by simp
  have b: "invoke cfg_limit5 ?srv ?c ?w
      = Some (Inl (PardotException (JInt 1) (call_activity ?c) (JStr ''Invalid API key'')
                     (err_body ''Invalid API key'' 1)),
              ?w2\<lparr>sent := sent ?w2 @ [call_request cfg_limit5 ?c (call_url ?c ?w) ?w2],
                  redis_val := Some (1 + 2)\<rparr>)"
    using T h9 h5 h6 h7 by blast
  have wr: "wrapper_retries ?e66"
    by (simp add: wrapper_retries_iff)
  have c1: "invoke cfg_limit5 ?srv66 ?c ?w = invoke cfg_limit5 ?srv66 ?c ?v2"
    using U wr by simp
  have c2: "call_attempt cfg_limit5 ?srv66 ?c ?v2
      = (Inr payload,
         \<lparr>redis_val = Some 2, api_key = JStr ''key0'', api_version = JStr ''3'',
           sent = [?req1, login_request cfg_limit5, ?req1]\<rparr>)"
    by (simp add: run_defs no_error_indicator_def)
  have c: "invoke cfg_limit5 ?srv66 ?c ?w
      = Some (Inr payload,
         \<lparr>redis_val = Some 2, api_key = JStr ''key0'', api_version = JStr ''3'',
           sent = [?req1, login_request cfg_limit5, ?req1]\<rparr>)"
    using c1 invoke_return [OF c2] by simp
  show ?thesis
    using a b c
    by (simp add: call_request_def get_auth_header_def build_params_def w_session_def cfg_limit5_def
        del: invoke.simps call_attempt.simps)
qed

text \<open>A \<^verbatim>\<open>describe\<close> at count 1 whose first response carries code 1 and whose
  second request succeeds: the payload is returned and the count is 3.\<close>

theorem reauth_counts_login_and_retry:
  "redis_val (w_session 1) = Some 1
   \<and> invoke cfg_limit5
        (scripted [ok_response (err_body ''Invalid API key'' 1), ok_response login_body, ok_response payload])
        (Describe ''prospect'' []) (w_session 1)
      = Some (Inr payload,
              \<lparr>redis_val = Some 3, api_key = JStr ''key1'', api_version = JInt 4,
                sent = [call_request cfg_limit5 (Describe ''prospect'' []) (call_url (Describe ''prospect'' []) (w_session 1)) (w_session 1),
                        login_request cfg_limit5,
                        ApiRequest ''get'' \<lparr>endpoint = ''prospect'', version = JStr ''3'', action = ''describe''\<rparr>
                          (JStr ''key1'', ''uk'') [(''format'', JStr ''json''), (''output'', JStr ''bulk'')]]\<rparr>)"
proof -
  have "call_attempt cfg_limit5
        (scripted [ok_response (err_body ''Invalid API key'' 1), ok_response login_body, ok_response payload])
        (Describe ''prospect'' []) (w_session 1)
      = (Inr payload,
              \<lparr>redis_val = Some 3, api_key = JStr ''key1'', api_version = JInt 4,
                sent = [call_request cfg_limit5 (Describe ''prospect'' []) (call_url (Describe ''prospect'' []) (w_session 1)) (w_session 1),
                        login_request cfg_limit5,
                        ApiRequest ''get'' \<lparr>endpoint = ''prospect'', version = JStr ''3'', action = ''describe''\<rparr>
                          (JStr ''key1'', ''uk'') [(''format'', JStr ''json''), (''output'', JStr ''bulk'')]]\<rparr>)"
    by (simp add: run_defs)
  then show ?thesis
    by (simp add: invoke_return w_session_def del: invoke.simps)
qed

text \<open>
  C4, as the code has it. When the first response of a \<^verbatim>\<open>describe\<close>, \<^verbatim>\<open>get\<close>
  or \<^verbatim>\<open>post\<close> call carries embedded error code 1, the re-login succeeds and the
  second response has a body without an error indicator, the caller receives that body
  and the count in the Quota Store has grown by exactly 2: one increment by the login,
  one for the second request. The first request does not increment it.
\<close>

theorem reauth_success_counts_two:
  assumes "redis_val w = Some n" and "limit_allows (daily_limit cfg) n"
    and "srv (sent w @ [call_request cfg c (call_url c w) w]) = Some r"
    and "is_2xx r" and "body r = Some content"
    and "embedded_error content = Some (cd, msg)" and "py_eq_int cd 1"
    and "login cfg srv (w\<lparr>sent := sent w @ [call_request cfg c (call_url c w) w]\<rparr>) = (Inr x, w2)"
    and "srv (sent w2 @ [call_request cfg c (call_url c w) w2]) = Some r2"
    and "body r2 = Some content2" and "no_error_indicator content2"
  shows "invoke cfg srv c w
           = Some (Inr content2,
                   w2\<lparr>sent := sent w2 @ [call_request cfg c (call_url c w) w2],
                      redis_val := Some (n + 2)\<rparr>)"
proof -
  have "call_attempt cfg srv c w
           = (Inr content2,
              w2\<lparr>sent := sent w2 @ [call_request cfg c (call_url c w) w2], redis_val := Some (n + 2)\<rparr>)"
    using call_attempt_checked [OF reauth_recovered [where srv = srv, OF assms(1-10)]]
    by (simp add: check_error_none [OF assms(11)])
  then show ?thesis
    by (rule invoke_return)
qed

text \<open>A \<^verbatim>\<open>get\<close> at count 2: the count is 4 afterwards.\<close>

theorem reauth_success_counts_two_witness:
  "invoke cfg_limit5
     (scripted [ok_response (err_body ''Invalid API key'' 1), ok_response login_body, ok_response payload])
     (Get ''prospect'' [] []) (w_session 2)
   = Some (Inr payload,
           \<lparr>redis_val = Some 4, api_key = JStr ''key1'', api_version = JInt 4,
             sent = [ApiRequest ''get'' \<lparr>endpoint = ''prospect'', version = JStr ''3'', action = ''query''\<rparr>
                       (JStr ''key0'', ''uk'') [(''format'', JStr ''json''), (''output'', JStr ''bulk'')],
                     login_request cfg_limit5,
                     ApiRequest ''get'' \<lparr>endpoint = ''prospect'', version = JStr ''3'', action = ''query''\<rparr>
                       (JStr ''key1'', ''uk'') [(''format'', JStr ''json''), (''output'', JStr ''bulk'')]]\<rparr>)"
proof -
  let ?srv = "scripted [ok_response (err_body ''Invalid API key'' 1), ok_response login_body, ok_response payload]"
  let ?c = "Get ''prospect'' [] []"
  let ?w = "w_session 2"
  let ?req1 = "call_request cfg_limit5 ?c (call_url ?c ?w) ?w"
  let ?w2 = "\<lparr>redis_val = Some 3, api_key = JStr ''key1'', api_version = JInt 4,
              sent = [?req1, login_request cfg_limit5]\<rparr>"
  let ?r = "\<lparr>status_code = 200, body = Some (err_body ''Invalid API key'' 1)\<rparr>"
  let ?r2 = "\<lparr>status_code = 200, body = Some payload\<rparr>"
  have h1: "redis_val ?w = Some 2" by (simp add: w_session_def)
  have h2: "limit_allows (daily_limit cfg_limit5) 2" by (simp add: limit_allows_def cfg_limit5_def)
  have h3: "?srv (sent ?w @ [?req1]) = Some ?r"
    by (simp add: scripted_def w_session_def ok_response_def)
  have h4: "is_2xx ?r" by (simp add: is_2xx_def)
  have h5: "body ?r = Some (err_body ''Invalid API key'' 1)" by simp
  have h6: "embedded_error (err_body ''Invalid API key'' 1) = Some (JInt 1, JStr ''Invalid API key'')"
    by (simp add: embedded_error_def err_body_def py_get_def err_code_of_def)
  have h7: "py_eq_int (JInt 1) 1" by simp
  have h8: "login cfg_limit5 ?srv (?w\<lparr>sent := sent ?w @ [?req1]\<rparr>) = (Inr (), ?w2)"
    by (simp add: run_defs)
  have h9: "?srv (sent ?w2 @ [call_request cfg_limit5 ?c (call_url ?c ?w) ?w2]) = Some ?r2"
    by (simp add: scripted_def ok_response_def)
  have h10: "body ?r2 = Some payload" by simp
  have h11: "no_error_indicator payload"
    by (simp add: no_error_indicator_def payload_def py_get_def)
  show ?thesis
    using reauth_success_counts_two [where srv = ?srv and c = ?c, OF h1 h2 h3 h4 h5 h6 h7 h8 h9 h10 h11]
    by (simp add: call_request_def get_auth_header_def build_params_def w_session_def cfg_limit5_def
        del: invoke.simps)
qed

subsection \<open>The counter across one execution\<close>

lemma call_attempt_first_response:
  assumes "redis_val w = Some n" and "limit_allows (daily_limit cfg) n"
    and "srv (sent w @ [call_request cfg c (call_url c w) w]) = Some r"
  shows "(500 \<le> status_code r \<longrightarrow>
            call_attempt cfg srv c w
              = (Inl Pardot5xxError, w\<lparr>sent := sent w @ [call_request cfg c (call_url c w) w]\<rparr>))
       \<and> (400 \<le> status_code r \<and> status_code r < 500 \<longrightarrow>
            call_attempt cfg srv c w
              = (Inl (HTTPError (status_code r)), w\<lparr>sent := sent w @ [call_request cfg c (call_url c w) w]\<rparr>))
       \<and> (status_code r < 400 \<and> body r = Some content \<and> no_error_indicator content \<longrightarrow>
            call_attempt cfg srv c w
              = (Inr content,
                 w\<lparr>sent := sent w @ [call_request cfg c (call_url c w) w], redis_val := Some (n + 1)\<rparr>))
       \<and> (status_code r < 400 \<and> body r = Some content \<and> embedded_error content = Some (cd, msg)
            \<and> \<not> py_eq_int cd 1 \<and> \<not> py_eq_int cd 122 \<longrightarrow>
            call_attempt cfg srv c w
              = (Inl (PardotException cd (call_activity c) msg content),
                 w\<lparr>sent := sent w @ [call_request cfg c (call_url c w) w]\<rparr>))"
proof -
  note s = assms(3) [unfolded call_request_def]
  have a: "call_attempt cfg srv c w
              = (Inl Pardot5xxError, w\<lparr>sent := sent w @ [call_request cfg c (call_url c w) w]\<rparr>)"
    if "500 \<le> status_code r"
    using make_request_5xx [where srv = srv, OF assms(1,2) s that]
    by (simp add: call_attempt_raise call_request_def)
  have b: "call_attempt cfg srv c w
              = (Inl (HTTPError (status_code r)), w\<lparr>sent := sent w @ [call_request cfg c (call_url c w) w]\<rparr>)"
    if "400 \<le> status_code r" and "status_code r < 500"
    using make_request_4xx [where srv = srv, OF assms(1,2) s that]
    by (simp add: call_attempt_raise call_request_def)
  have c: "call_attempt cfg srv c w
              = (Inr content,
                 w\<lparr>sent := sent w @ [call_request cfg c (call_url c w) w], redis_val := Some (n + 1)\<rparr>)"
    if "status_code r < 400" and "body r = Some content" and "no_error_indicator content"
    using call_attempt_checked [OF make_request_success [where srv = srv, OF assms(1,2) s that]]
    by (simp add: check_error_none [OF that(3)] call_request_def)
  have d: "call_attempt cfg srv c w
              = (Inl (PardotException cd (call_activity c) msg content),
                 w\<lparr>sent := sent w @ [call_request cfg c (call_url c w) w]\<rparr>)"
    if "status_code r < 400" and "body r = Some content" and "embedded_error content = Some (cd, msg)"
      and "\<not> py_eq_int cd 1" and "\<not> py_eq_int cd 122"
    using call_attempt_checked [OF make_request_embedded_other [where srv = srv, OF assms(1,2) s that]]
    by (simp add: check_error_embedded [OF that(3)] call_request_def)
  show ?thesis
    using a b c d by blast
qed

text \<open>The request executor at count 0, a first response with code 1, a successful
  login and a successful second request: the count is 2 afterwards.\<close>

theorem executor_reauth_adds_two:
  "redis_val (w_session 0) = Some 0
   \<and> make_request cfg_limit5
        (scripted [ok_response (err_body ''Invalid API key'' 1), ok_response login_body, ok_response payload])
        ''get'' \<lparr>endpoint = ''visitor'', version = JStr ''3'', action = ''query''\<rparr>
        [(''format'', JStr ''json''), (''output'', JStr ''bulk'')] (w_session 0)
      = (Inr payload,
         \<lparr>redis_val = Some 2, api_key = JStr ''key1'', api_version = JInt 4,
           sent = [ApiRequest ''get'' \<lparr>endpoint = ''visitor'', version = JStr ''3'', action = ''query''\<rparr>
                     (JStr ''key0'', ''uk'') [(''format'', JStr ''json''), (''output'', JStr ''bulk'')],
                   login_request cfg_limit5,
                   ApiRequest ''get'' \<lparr>endpoint = ''visitor'', version = JStr ''3'', action = ''query''\<rparr>
                     (JStr ''key1'', ''uk'') [(''format'', JStr ''json''), (''output'', JStr ''bulk'')]]\<rparr>)"
  by (simp add: run_defs)

text \<open>
  C5, as the code has it. Across one execution of a call (one attempt, with the check of
  the returned body) from a state whose count is \<open>n\<close>:
  \<^item> when the guard refuses the call (local limit), \<^verbatim>\<open>PardotUserLimitReached\<close> is
    raised and the count is \<open>n\<close>;
  \<^item> when the first response has a status of 500 or more, \<^verbatim>\<open>Pardot5xxError\<close> is
    raised and the count is \<open>n\<close>;
  \<^item> when it has a status from 400 to 499, the HTTP error is raised and the count is
    \<open>n\<close>;
  \<^item> when it is 2xx without an error indicator, its body is returned and the count is
    \<open>n + 1\<close>;
  \<^item> when it is 2xx with an embedded error whose code is neither 1 nor 122, the API
    exception is raised and the count is \<open>n\<close>;
  \<^item> when it is 2xx with embedded error code 1, the re-login succeeds and the second
    response has a body without an error indicator, that body is returned and the count
    is \<open>n + 2\<close>: the login and the second request each increment it.
\<close>

theorem counter_frame:
  assumes "redis_val w = Some n"
  shows "(\<not> limit_allows (daily_limit cfg) n \<longrightarrow>
            fst (call_attempt cfg srv c w) = Inl PardotUserLimitReached
          \<and> redis_val (snd (call_attempt cfg srv c w)) = Some n)
       \<and> (limit_allows (daily_limit cfg) n
          \<and> srv (sent w @ [call_request cfg c (call_url c w) w]) = Some r \<longrightarrow>
            (500 \<le> status_code r \<longrightarrow>
               fst (call_attempt cfg srv c w) = Inl Pardot5xxError
             \<and> redis_val (snd (call_attempt cfg srv c w)) = Some n)
          \<and> (400 \<le> status_code r \<and> status_code r < 500 \<longrightarrow>
               fst (call_attempt cfg srv c w) = Inl (HTTPError (status_code r))
             \<and> redis_val (snd (call_attempt cfg srv c w)) = Some n)
          \<and> (is_2xx r \<and> body r = Some content \<and> no_error_indicator content \<longrightarrow>
               fst (call_attempt cfg srv c w) = Inr content
             \<and> redis_val (snd (call_attempt cfg srv c w)) = Some (n + 1))
          \<and> (is_2xx r \<and> body r = Some content \<and> embedded_error content = Some (cd, msg)
              \<and> \<not> py_eq_int cd 1 \<and> \<not> py_eq_int cd 122 \<longrightarrow>
               fst (call_attempt cfg srv c w) = Inl (PardotException cd (call_activity c) msg content)
             \<and> redis_val (snd (call_attempt cfg srv c w)) = Some n)
          \<and> (is_2xx r \<and> body r = Some content \<and> embedded_error content = Some (cd, msg)
              \<and> py_eq_int cd 1
              \<and> login cfg srv (w\<lparr>sent := sent w @ [call_request cfg c (call_url c w) w]\<rparr>) = (Inr x, w2)
              \<and> srv (sent w2 @ [call_request cfg c (call_url c w) w2]) = Some r2
              \<and> body r2 = Some content2 \<and> no_error_indicator content2 \<longrightarrow>
               fst (call_attempt cfg srv c w) = Inr content2
             \<and> redis_val (snd (call_attempt cfg srv c w)) = Some (n + 2)))"
proof -
  have refused: "fst (call_attempt cfg srv c w) = Inl PardotUserLimitReached
          \<and> redis_val (snd (call_attempt cfg srv c w)) = Some n"
    if "\<not> limit_allows (daily_limit cfg) n"
    using call_attempt_refused [OF assms that, of srv c] assms by simp
  have first: ?thesis if g: "limit_allows (daily_limit cfg) n"
    and s: "srv (sent w @ [call_request cfg c (call_url c w) w]) = Some r"
  proof -
    note F = call_attempt_first_response [where srv = srv, OF assms g s]
    have st: "status_code r < 400" if "is_2xx r"
      using that by (simp add: is_2xx_def)
    have re: "fst (call_attempt cfg srv c w) = Inr content2
             \<and> redis_val (snd (call_attempt cfg srv c w)) = Some (n + 2)"
      if "is_2xx r" and "body r = Some content" and "embedded_error content = Some (cd, msg)"
        and "py_eq_int cd 1"
        and "login cfg srv (w\<lparr>sent := sent w @ [call_request cfg c (call_url c w) w]\<rparr>) = (Inr x, w2)"
        and "srv (sent w2 @ [call_request cfg c (call_url c w) w2]) = Some r2"
        and "body r2 = Some content2" and "no_error_indicator content2"
      using call_attempt_checked [OF reauth_recovered [where srv = srv, OF assms g s that(1-7)]]
      by (simp add: check_error_none [OF that(8)])
    show ?thesis
      using F [of content cd msg] F [of content] st re g assms by auto
  qed
  show ?thesis
    using refused first by blast
qed

text \<open>A success, a 503, an embedded error with code 4 and a refused call.\<close>

theorem counter_frame_witness:
  "fst (call_attempt cfg_limit5 (scripted [ok_response payload]) (Describe ''prospect'' []) (w_session 1))
     = Inr payload
   \<and> redis_val (snd (call_attempt cfg_limit5 (scripted [ok_response payload]) (Describe ''prospect'' []) (w_session 1)))
     = Some 2
   \<and> fst (call_attempt cfg_limit5 (scripted [status_response 503]) (Describe ''prospect'' []) (w_session 1))
     = Inl Pardot5xxError
   \<and> redis_val (snd (call_attempt cfg_limit5 (scripted [status_response 503]) (Describe ''prospect'' []) (w_session 1)))
     = Some 1
   \<and> fst (call_attempt cfg_limit5 (scripted [ok_response (err_body ''Invalid prospect'' 4)])
            (Describe ''prospect'' []) (w_session 1))
     = Inl (PardotException (JInt 4) ''describing endpoint'' (JStr ''Invalid prospect'')
              (err_body ''Invalid prospect'' 4))
   \<and> redis_val (snd (call_attempt cfg_limit5 (scripted [ok_response (err_body ''Invalid prospect'' 4)])
            (Describe ''prospect'' []) (w_session 1)))
     = Some 1
   \<and> fst (call_attempt cfg_limit5 (scripted [ok_response payload]) (Describe ''prospect'' []) (w_session 5))
     = Inl PardotUserLimitReached
   \<and> redis_val (snd (call_attempt cfg_limit5 (scripted [ok_response payload]) (Describe ''prospect'' []) (w_session 5)))
     = Some 5"
proof -
  let ?c = "Describe ''prospect'' []"
  let ?w = "w_session 1"
  let ?req1 = "call_request cfg_limit5 ?c (call_url ?c ?w) ?w"
  have h1: "redis_val ?w = Some 1" by (simp add: w_session_def)
  have h5: "redis_val (w_session 5) = Some 5" by (simp add: w_session_def)
  have g1: "limit_allows (daily_limit cfg_limit5) 1" by (simp add: limit_allows_def cfg_limit5_def)
  have g5: "\<not> limit_allows (daily_limit cfg_limit5) 5" by (simp add: limit_allows_def cfg_limit5_def)
  have s1: "scripted [ok_response payload] (sent ?w @ [?req1]) = Some \<lparr>status_code = 200, body = Some payload\<rparr>"
    by (simp add: scripted_def w_session_def ok_response_def)
  have s2: "scripted [status_response 503] (sent ?w @ [?req1]) = Some \<lparr>status_code = 503, body = None\<rparr>"
    by (simp add: scripted_def w_session_def status_response_def)
  have s3: "scripted [ok_response (err_body ''Invalid prospect'' 4)] (sent ?w @ [?req1])
              = Some \<lparr>status_code = 200, body = Some (err_body ''Invalid prospect'' 4)\<rparr>"
    by (simp add: scripted_def w_session_def ok_response_def)
  have p: "no_error_indicator payload"
    by (simp add: no_error_indicator_def payload_def py_get_def)
  have e: "embedded_error (err_body ''Invalid prospect'' 4) = Some (JInt 4, JStr ''Invalid prospect'')"
    by (simp add: embedded_error_def err_body_def py_get_def err_code_of_def)
  have a: "fst (call_attempt cfg_limit5 (scripted [ok_response payload]) ?c ?w) = Inr payload
         \<and> redis_val (snd (call_attempt cfg_limit5 (scripted [ok_response payload]) ?c ?w)) = Some 2"
    using counter_frame [where srv = "scripted [ok_response payload]" and c = ?c and content = payload, OF h1]
      g1 s1 p
    by (simp add: is_2xx_def del: call_attempt.simps)
  have b: "fst (call_attempt cfg_limit5 (scripted [status_response 503]) ?c ?w) = Inl Pardot5xxError
         \<and> redis_val (snd (call_attempt cfg_limit5 (scripted [status_response 503]) ?c ?w)) = Some 1"
    using counter_frame [where srv = "scripted [status_response 503]" and c = ?c, OF h1] g1 s2
    by (simp del: call_attempt.simps)
  have c: "fst (call_attempt cfg_limit5 (scripted [ok_response (err_body ''Invalid prospect'' 4)]) ?c ?w)
             = Inl (PardotException (JInt 4) (call_activity ?c) (JStr ''Invalid prospect'')
                      (err_body ''Invalid prospect'' 4))
         \<and> redis_val (snd (call_attempt cfg_limit5 (scripted [ok_response (err_body ''Invalid prospect'' 4)]) ?c ?w))
             = Some 1"
    using counter_frame [where srv = "scripted [ok_response (err_body ''Invalid prospect'' 4)]" and c = ?c
        and content = "err_body ''Invalid prospect'' 4" and cd = "JInt 4" and msg = "JStr ''Invalid prospect''", OF h1]
      g1 s3 e
    by (simp add: is_2xx_def del: call_attempt.simps)
  have d: "fst (call_attempt cfg_limit5 (scripted [ok_response payload]) ?c (w_session 5)) = Inl PardotUserLimitReached
         \<and> redis_val (snd (call_attempt cfg_limit5 (scripted [ok_response payload]) ?c (w_session 5))) = Some 5"
    using counter_frame [where srv = "scripted [ok_response payload]" and c = ?c, OF h5] g5
    by (simp del: call_attempt.simps)
  show ?thesis
    using a b c d by (simp del: call_attempt.simps)
qed

subsection \<open>Query parameters\<close>

lemma foldl_update_map_of:
  "map_of (foldl (\<lambda>d (k, v). AList.update k v d) d0 kws) = map_of d0 ++ map_of (rev kws)"
proof (induction kws arbitrary: d0)
  case Nil
  then show ?case by simp
next
  case (Cons kv kws)
  obtain k v where kv: "kv = (k, v)" by (cases kv)
  have "map_of (foldl (\<lambda>d (k, v). AList.update k v d) (AList.update k v d0) kws)
          = (map_of d0)(k \<mapsto> v) ++ map_of (rev kws)"
    by (simp only: Cons.IH AList.update_conv')
  then show ?case
    by (auto simp: kv map_add_def fun_eq_iff split: option.splits)
qed

lemma foldl_update_distinct:
  "distinct (map fst d0) \<Longrightarrow> distinct (map fst (foldl (\<lambda>d (k, v). AList.update k v d) d0 kws))"
  by (induction kws arbitrary: d0) (auto simp: AList.distinct_update)

lemma map_of_rev_distinct:
  assumes "distinct (map fst xs)"
  shows "map_of (rev xs) = map_of xs"
proof (rule ext)
  fix k
  have d: "distinct (map fst (rev xs))"
    using assms by (simp add: rev_map [symmetric])
  show "map_of (rev xs) k = map_of xs k"
  proof (cases "map_of xs k")
    case None
    then have "k \<notin> fst ` set xs"
      by (simp add: map_of_eq_None_iff)
    then have "map_of (rev xs) k = None"
      by (simp add: map_of_eq_None_iff)
    then show ?thesis
      using None by simp
  next
    case (Some v)
    then have "(k, v) \<in> set (rev xs)"
      using assms by simp
    then show ?thesis
      using Some d by (simp del: set_rev)
  qed
qed

lemma build_params_lookup:
  assumes "distinct (map fst kwargs)"
  shows "map_of (build_params kwargs) k =
           (case map_of kwargs k of
              Some v \<Rightarrow> Some v
            | None \<Rightarrow> map_of [(''format'', JStr ''json''), (''output'', JStr ''bulk'')] k)"
  by (simp add: build_params_def foldl_update_map_of map_of_rev_distinct [OF assms] map_add_def
      split: option.splits)

lemma build_params_distinct: "distinct (map fst (build_params kwargs))"
  by (simp add: build_params_def foldl_update_distinct)

lemma make_request_new_requests:
  "\<forall>req \<in> set (new_requests w (snd (make_request cfg srv m u ps w))).
     req = login_request cfg \<or> (\<exists>k. req = ApiRequest m u (k, user_key cfg) ps)"
proof -
  have lg: "sent w2 = sent w1 @ [login_request cfg]" if "login cfg srv w1 = (res, w2)" for w1 res w2
    using login_sent [of cfg srv w1] that by (simp add: login_request_def)
  show ?thesis
    by (auto simp: make_request_def transport_def new_requests_def redis_incr_def get_auth_header_def
        split: option.splits sum.splits prod.splits if_splits dest!: lg)
qed

text \<open>A \<^verbatim>\<open>describe\<close> with the keyword argument \<^verbatim>\<open>format="xml"\<close>: the request
  is sent with \<^verbatim>\<open>format=xml\<close>, and \<^verbatim>\<open>format=json\<close> is not among its
  parameters.\<close>

theorem caller_filter_replaces_format:
  "call_attempt cfg_limit5 (scripted [ok_response payload])
     (Describe ''prospect'' [(''format'', JStr ''xml'')]) (w_session 1)
   = (Inr payload,
      \<lparr>redis_val = Some 2, api_key = JStr ''key0'', api_version = JStr ''3'',
        sent = [ApiRequest ''get'' \<lparr>endpoint = ''prospect'', version = JStr ''3'', action = ''describe''\<rparr>
                  (JStr ''key0'', ''uk'') [(''format'', JStr ''xml''), (''output'', JStr ''bulk'')]]\<rparr>)
   \<and> (''format'', JStr ''json'') \<notin> set [(''format'', JStr ''xml''), (''output'', JStr ''bulk'')]"
  by (simp add: run_defs no_error_indicator_def)

text \<open>
  C10, as the code has it. For every \<^verbatim>\<open>describe\<close>, \<^verbatim>\<open>get\<close> or \<^verbatim>\<open>post\<close>
  call with keyword arguments \<open>kwargs\<close> (a dict: its keys are distinct), every API
  request that an attempt of the call sends carries the parameters
  \<^verbatim>\<open>{"format": "json", "output": "bulk", **kwargs}\<close>. They hold every keyword
  argument with its value; they hold \<^verbatim>\<open>format=json\<close> unless a keyword argument is
  named \<^verbatim>\<open>format\<close>, and \<^verbatim>\<open>output=bulk\<close> unless one is named \<^verbatim>\<open>output\<close>:
  a keyword argument with one of these names replaces the fixed value.
\<close>

theorem params_sent:
  assumes "distinct (map fst (call_kwargs c))"
  shows "(\<forall>req \<in> set (new_requests w (snd (call_attempt cfg srv c w))).
            req = login_request cfg
          \<or> (\<exists>k. req = ApiRequest (call_method c) (call_url c w) (k, user_key cfg)
                        (build_params (call_kwargs c))))
       \<and> distinct (map fst (build_params (call_kwargs c)))
       \<and> (\<forall>(k, v) \<in> set (call_kwargs c). map_of (build_params (call_kwargs c)) k = Some v)
       \<and> (''format'' \<notin> fst ` set (call_kwargs c) \<longrightarrow>
            map_of (build_params (call_kwargs c)) ''format'' = Some (JStr ''json''))
       \<and> (''output'' \<notin> fst ` set (call_kwargs c) \<longrightarrow>
            map_of (build_params (call_kwargs c)) ''output'' = Some (JStr ''bulk''))"
proof -
  have tr: "\<forall>req \<in> set (new_requests w (snd (call_attempt cfg srv c w))).
            req = login_request cfg
          \<or> (\<exists>k. req = ApiRequest (call_method c) (call_url c w) (k, user_key cfg)
                        (build_params (call_kwargs c)))"
    unfolding call_attempt_snd by (rule make_request_new_requests)
  have own: "map_of (build_params (call_kwargs c)) k = Some v" if "(k, v) \<in> set (call_kwargs c)" for k v
    using that assms by (simp add: build_params_lookup [OF assms])
  have dflt: "map_of (build_params (call_kwargs c)) k
                = map_of [(''format'', JStr ''json''), (''output'', JStr ''bulk'')] k"
    if "k \<notin> fst ` set (call_kwargs c)" for k
    using that by (simp add: build_params_lookup [OF assms] map_of_eq_None_iff [THEN iffD2])
  show ?thesis
    using tr own dflt build_params_distinct by auto
qed

text \<open>A \<^verbatim>\<open>get\<close> with \<^verbatim>\<open>created_after\<close> and \<^verbatim>\<open>output="full"\<close>.\<close>

theorem params_sent_witness:
  "new_requests (w_session 1)
     (snd (call_attempt cfg_limit5 (scripted [ok_response payload])
        (Get ''prospect'' [] [(''created_after'', JStr ''2020-01-01''), (''output'', JStr ''full'')])
        (w_session 1)))
   = [ApiRequest ''get'' \<lparr>endpoint = ''prospect'', version = JStr ''3'', action = ''query''\<rparr>
        (JStr ''key0'', ''uk'')
        [(''format'', JStr ''json''), (''output'', JStr ''full''), (''created_after'', JStr ''2020-01-01'')]]
   \<and> map_of (build_params [(''created_after'', JStr ''2020-01-01''), (''output'', JStr ''full'')]) ''created_after''
       = Some (JStr ''2020-01-01'')
   \<and> map_of (build_params [(''created_after'', JStr ''2020-01-01''), (''output'', JStr ''full'')]) ''output''
       = Some (JStr ''full'')
   \<and> map_of (build_params [(''created_after'', JStr ''2020-01-01''), (''output'', JStr ''full'')]) ''format''
       = Some (JStr ''json'')"
proof -
  let ?kw = "[(''created_after'', JStr ''2020-01-01''), (''output'', JStr ''full'')]"
  let ?c = "Get ''prospect'' [] ?kw"
  have h: "distinct (map fst (call_kwargs ?c))" by simp
  have nf: "''format'' \<notin> fst ` set (call_kwargs ?c)" by simp
  have tr: "new_requests (w_session 1)
     (snd (call_attempt cfg_limit5 (scripted [ok_response payload]) ?c (w_session 1)))
   = [ApiRequest ''get'' \<lparr>endpoint = ''prospect'', version = JStr ''3'', action = ''query''\<rparr>
        (JStr ''key0'', ''uk'')
        [(''format'', JStr ''json''), (''output'', JStr ''full''), (''created_after'', JStr ''2020-01-01'')]]"
    by (simp add: run_defs new_requests_def no_error_indicator_def)
  show ?thesis
    using params_sent [where c = ?c and cfg = cfg_limit5 and srv = "scripted [ok_response payload]"
        and w = "w_session 1", OF h] nf tr
    by (simp del: call_attempt.simps)
qed

subsection \<open>The server-reported limit code\<close>

text \<open>A \<^verbatim>\<open>describe\<close> at count 1 whose first response carries code 1; the response
  to the second request, after the re-login, is 2xx and carries code 122. The executor
  compares the code of the first response only: it returns the second body and the count
  is 3, and the caller gets the API exception with code 122 from the check of the
  returned body.\<close>

theorem retried_limit_code_returned:
  "make_request cfg_limit5
     (scripted [ok_response (err_body ''Invalid API key'' 1), ok_response login_body,
                ok_response (err_body ''limit'' 122)])
     ''get'' \<lparr>endpoint = ''prospect'', version = JStr ''3'', action = ''describe''\<rparr>
     [(''format'', JStr ''json''), (''output'', JStr ''bulk'')] (w_session 1)
   = (Inr (err_body ''limit'' 122),
      \<lparr>redis_val = Some 3, api_key = JStr ''key1'', api_version = JInt 4,
        sent = [ApiRequest ''get'' \<lparr>endpoint = ''prospect'', version = JStr ''3'', action = ''describe''\<rparr>
                  (JStr ''key0'', ''uk'') [(''format'', JStr ''json''), (''output'', JStr ''bulk'')],
                login_request cfg_limit5,
                ApiRequest ''get'' \<lparr>endpoint = ''prospect'', version = JStr ''3'', action = ''describe''\<rparr>
                  (JStr ''key1'', ''uk'') [(''format'', JStr ''json''), (''output'', JStr ''bulk'')]]\<rparr>)
   \<and> redis_val (w_session 1) = Some 1
   \<and> invoke cfg_limit5
        (scripted [ok_response (err_body ''Invalid API key'' 1), ok_response login_body,
                   ok_response (err_body ''limit'' 122)])
        (Describe ''prospect'' []) (w_session 1)
      = Some (Inl (PardotException (JInt 122) ''describing endpoint'' (JStr ''limit'') (err_body ''limit'' 122)),
              \<lparr>redis_val = Some 3, api_key = JStr ''key1'', api_version = JInt 4,
                sent = [ApiRequest ''get'' \<lparr>endpoint = ''prospect'', version = JStr ''3'', action = ''describe''\<rparr>
                          (JStr ''key0'', ''uk'') [(''format'', JStr ''json''), (''output'', JStr ''bulk'')],
                        login_request cfg_limit5,
                        ApiRequest ''get'' \<lparr>endpoint = ''prospect'', version = JStr ''3'', action = ''describe''\<rparr>
                          (JStr ''key1'', ''uk'') [(''format'', JStr ''json''), (''output'', JStr ''bulk'')]]\<rparr>)"
proof -
  let ?srv = "scripted [ok_response (err_body ''Invalid API key'' 1), ok_response login_body,
                ok_response (err_body ''limit'' 122)]"
  let ?w3 = "\<lparr>redis_val = Some 3, api_key = JStr ''key1'', api_version = JInt 4,
                sent = [ApiRequest ''get'' \<lparr>endpoint = ''prospect'', version = JStr ''3'', action = ''describe''\<rparr>
                          (JStr ''key0'', ''uk'') [(''format'', JStr ''json''), (''output'', JStr ''bulk'')],
                        login_request cfg_limit5,
                        ApiRequest ''get'' \<lparr>endpoint = ''prospect'', version = JStr ''3'', action = ''describe''\<rparr>
                          (JStr ''key1'', ''uk'') [(''format'', JStr ''json''), (''output'', JStr ''bulk'')]]\<rparr>"
  have mr: "make_request cfg_limit5 ?srv
     ''get'' \<lparr>endpoint = ''prospect'', version = JStr ''3'', action = ''describe''\<rparr>
     [(''format'', JStr ''json''), (''output'', JStr ''bulk'')] (w_session 1)
   = (Inr (err_body ''limit'' 122), ?w3)"
    by (simp add: run_defs)
  have ca: "call_attempt cfg_limit5 ?srv (Describe ''prospect'' []) (w_session 1)
      = (Inl (PardotException (JInt 122) ''describing endpoint'' (JStr ''limit'') (err_body ''limit'' 122)), ?w3)"
    by (simp add: run_defs)
  have inv: "invoke cfg_limit5 ?srv (Describe ''prospect'' []) (w_session 1)
      = Some (Inl (PardotException (JInt 122) ''describing endpoint'' (JStr ''limit'') (err_body ''limit'' 122)), ?w3)"
    by (rule invoke_giveup [OF ca]) simp
  show ?thesis
    using mr inv by (simp add: w_session_def del: invoke.simps)
qed

text \<open>
  C7, as the code has it. When the guard is passed and the response to the first request
  of an execution is 2xx with an embedded error whose code is 122, the request executor
  raises \<^verbatim>\<open>PardotUserLimitReached\<close>, the exception of the local daily-limit case. It
  is terminal: the backoff wrapper does not catch this class (and its predicate says to
  give up), so \<^verbatim>\<open>get\<close>, \<^verbatim>\<open>post\<close> and \<^verbatim>\<open>describe\<close> raise it after the one
  request. The state changes only by the request in the trace: the counter keeps its
  value.
\<close>

theorem server_limit_code_terminal:
  assumes "redis_val w = Some n" and "limit_allows (daily_limit cfg) n"
    and "srv (sent w @ [call_request cfg c (call_url c w) w]) = Some r"
    and "is_2xx r" and "body r = Some content"
    and "embedded_error content = Some (cd, msg)" and "py_eq_int cd 122"
  shows "make_request cfg srv (call_method c) (call_url c w) (build_params (call_kwargs c)) w
           = (Inl PardotUserLimitReached, w\<lparr>sent := sent w @ [call_request cfg c (call_url c w) w]\<rparr>)
       \<and> invoke cfg srv c w
           = Some (Inl PardotUserLimitReached, w\<lparr>sent := sent w @ [call_request cfg c (call_url c w) w]\<rparr>)
       \<and> redis_val (w\<lparr>sent := sent w @ [call_request cfg c (call_url c w) w]\<rparr>) = Some n
       \<and> \<not> caught PardotUserLimitReached
       \<and> is_not_retryable_pardot_exception PardotUserLimitReached = Inr True"
proof -
  have st: "status_code r < 400"
    using assms(4) by (simp add: is_2xx_def)
  have mr: "make_request cfg srv (call_method c) (call_url c w) (build_params (call_kwargs c)) w
           = (Inl PardotUserLimitReached, w\<lparr>sent := sent w @ [call_request cfg c (call_url c w) w]\<rparr>)"
    using make_request_embedded_122 [where srv = srv, OF assms(1,2) assms(3) [unfolded call_request_def] st assms(5,6,7)]
    by (simp add: call_request_def)
  have nc: "\<not> caught PardotUserLimitReached"
    by (simp add: caught_def)
  have inv: "invoke cfg srv c w
           = Some (Inl PardotUserLimitReached, w\<lparr>sent := sent w @ [call_request cfg c (call_url c w) w]\<rparr>)"
    by (rule invoke_propagate [OF call_attempt_raise [OF mr] nc])
  show ?thesis
    using mr inv nc assms(1) by simp
qed

text \<open>A \<^verbatim>\<open>describe\<close> answered with code 122: one request, the count stays 1.\<close>

theorem server_limit_code_terminal_witness:
  "invoke cfg_limit5 (scripted [ok_response (err_body ''limit'' 122)]) (Describe ''prospect'' []) (w_session 1)
     = Some (Inl PardotUserLimitReached,
             \<lparr>redis_val = Some 1, api_key = JStr ''key0'', api_version = JStr ''3'',
               sent = [ApiRequest ''get'' \<lparr>endpoint = ''prospect'', version = JStr ''3'', action = ''describe''\<rparr>
                         (JStr ''key0'', ''uk'') [(''format'', JStr ''json''), (''output'', JStr ''bulk'')]]\<rparr>)"
proof -
  let ?srv = "scripted [ok_response (err_body ''limit'' 122)]"
  let ?c = "Describe ''prospect'' []"
  let ?r = "\<lparr>status_code = 200, body = Some (err_body ''limit'' 122)\<rparr>"
  have h1: "redis_val (w_session 1) = Some 1" by (simp add: w_session_def)
  have h2: "limit_allows (daily_limit cfg_limit5) 1" by (simp add: limit_allows_def cfg_limit5_def)
  have h3: "?srv (sent (w_session 1) @ [call_request cfg_limit5 ?c (call_url ?c (w_session 1)) (w_session 1)]) = Some ?r"
    by (simp add: scripted_def w_session_def ok_response_def)
  have h4: "is_2xx ?r" by (simp add: is_2xx_def)
  have h5: "body ?r = Some (err_body ''limit'' 122)" by simp
  have h6: "embedded_error (err_body ''limit'' 122) = Some (JInt 122, JStr ''limit'')"
    by (simp add: embedded_error_def err_body_def py_get_def err_code_of_def)
  have h7: "py_eq_int (JInt 122) 122" by simp
  show ?thesis
    using server_limit_code_terminal [where srv = ?srv and c = ?c, OF h1 h2 h3 h4 h5 h6 h7]
    by (simp add: w_session_def call_request_def get_auth_header_def build_params_def cfg_limit5_def
        del: invoke.simps)
qed

subsection \<open>A login answered with an error indicator\<close>

text \<open>Two runs. A login whose 200 response is \<^verbatim>\<open>{"err": "boom"}\<close>, with no
  \<^verbatim>\<open>@attributes\<close>: reading the code raises KeyError, not the API exception. And a
  \<^verbatim>\<open>describe\<close> whose first response carries code 1 and whose re-login is answered
  with an embedded error of code 66: the backoff wrapper calls the method again, and the
  data request is sent once more after the failed login.\<close>

theorem login_error_then_data_request:
  "login cfg_limit5 (scripted [ok_response (JObj [(''err'', JStr ''boom'')])]) (w_session 1)
     = (Inl (KeyError ''@attributes''),
        \<lparr>redis_val = Some 1, api_key = JStr ''key0'', api_version = JStr ''3'',
          sent = [login_request cfg_limit5]\<rparr>)
   \<and> invoke cfg_limit5
        (scripted [ok_response (err_body ''Invalid API key'' 1),
                   ok_response (err_body ''Too many requests'' 66), ok_response payload])
        (Describe ''prospect'' []) (w_session 1)
      = Some (Inr payload,
              \<lparr>redis_val = Some 2, api_key = JStr ''key0'', api_version = JStr ''3'',
                sent = [ApiRequest ''get'' \<lparr>endpoint = ''prospect'', version = JStr ''3'', action = ''describe''\<rparr>
                          (JStr ''key0'', ''uk'') [(''format'', JStr ''json''), (''output'', JStr ''bulk'')],
                        login_request cfg_limit5,
                        ApiRequest ''get'' \<lparr>endpoint = ''prospect'', version = JStr ''3'', action = ''describe''\<rparr>
                          (JStr ''key0'', ''uk'') [(''format'', JStr ''json''), (''output'', JStr ''bulk'')]]\<rparr>)"
proof -
  let ?srv = "scripted [ok_response (err_body ''Invalid API key'' 1),
                   ok_response (err_body ''Too many requests'' 66), ok_response payload]"
  let ?c = "Describe ''prospect'' []"
  let ?req = "ApiRequest ''get'' \<lparr>endpoint = ''prospect'', version = JStr ''3'', action = ''describe''\<rparr>
                          (JStr ''key0'', ''uk'') [(''format'', JStr ''json''), (''output'', JStr ''bulk'')]"
  let ?v2 = "\<lparr>redis_val = Some 1, api_key = JStr ''key0'', api_version = JStr ''3'',
              sent = [?req, login_request cfg_limit5]\<rparr>"
  let ?e66 = "PardotException (JInt 66) ''authenticating'' (JStr ''Too many requests'')
                (err_body ''Too many requests'' 66)"
  have a: "login cfg_limit5 (scripted [ok_response (JObj [(''err'', JStr ''boom'')])]) (w_session 1)
     = (Inl (KeyError ''@attributes''),
        \<lparr>redis_val = Some 1, api_key = JStr ''key0'', api_version = JStr ''3'',
          sent = [login_request cfg_limit5]\<rparr>)"
    by (simp add: run_defs)
  have c1: "call_attempt cfg_limit5 ?srv ?c (w_session 1) = (Inl ?e66, ?v2)"
    by (simp add: run_defs)
  have wr: "wrapper_retries ?e66"
    by (simp add: wrapper_retries_iff)
  have c2: "call_attempt cfg_limit5 ?srv ?c ?v2
      = (Inr payload,
         \<lparr>redis_val = Some 2, api_key = JStr ''key0'', api_version = JStr ''3'',
           sent = [?req, login_request cfg_limit5, ?req]\<rparr>)"
    by (simp add: run_defs no_error_indicator_def)
  have b: "invoke cfg_limit5 ?srv ?c (w_session 1)
      = Some (Inr payload,
         \<lparr>redis_val = Some 2, api_key = JStr ''key0'', api_version = JStr ''3'',
           sent = [?req, login_request cfg_limit5, ?req]\<rparr>)"
    using invoke_after_raise [OF c1] wr invoke_return [OF c2] by simp
  show ?thesis
    using a b by (simp del: invoke.simps)
qed

text \<open>
  C8, as the code has it. When the login response is 2xx and its body has a truthy
  \<^verbatim>\<open>err\<close>, \<^verbatim>\<open>login\<close> raises. The state it leaves differs from the one it found
  by the login request in the trace only: the counter is not incremented, the session is
  untouched and \<^verbatim>\<open>login\<close> sends no data request. When the body also has an
  \<^verbatim>\<open>err_code\<close> under \<^verbatim>\<open>@attributes\<close>, the exception is the API exception
  with that code and the message.
  \<^item> In the constructor, when the limit check before the login passes, construction
    fails with that exception; the counter holds the count it had (0 when it was
    missing) and the login is the only transport call.
  \<^item> In a re-login, after a first response of a \<^verbatim>\<open>get\<close>, \<^verbatim>\<open>post\<close> or
    \<^verbatim>\<open>describe\<close> call with embedded error code 1, the attempt ends with that
    exception and sends no second request. The call ends with it too, unless the
    backoff wrapper retries it (an API exception with code 66): then the wrapper starts
    the call again from the state the attempt left.
\<close>

theorem login_error_indicator_raises:
  assumes "srv (sent w @ [login_request cfg]) = Some r"
    and "is_2xx r" and "body r = Some content"
    and "error_indicator content"
  shows "\<exists>e. login cfg srv w = (Inl e, w\<lparr>sent := sent w @ [login_request cfg]\<rparr>)
           \<and> (\<forall>cd msg. embedded_error content = Some (cd, msg) \<longrightarrow>
                 e = PardotException cd ''authenticating'' msg content)
           \<and> (\<not> limit_reached (daily_limit cfg) (case redis_val w of None \<Rightarrow> 0 | Some k \<Rightarrow> k) \<longrightarrow>
                 client_init cfg srv w
                   = (Inl e,
                      w\<lparr>redis_val := Some (case redis_val w of None \<Rightarrow> 0 | Some k \<Rightarrow> k),
                        sent := sent w @ [login_request cfg]\<rparr>))
           \<and> (\<forall>w0 c n r1 content1 cd1 msg1.
                 redis_val w0 = Some n \<and> limit_allows (daily_limit cfg) n
                 \<and> w = w0\<lparr>sent := sent w0 @ [call_request cfg c (call_url c w0) w0]\<rparr>
                 \<and> srv (sent w) = Some r1 \<and> is_2xx r1 \<and> body r1 = Some content1
                 \<and> embedded_error content1 = Some (cd1, msg1) \<and> py_eq_int cd1 1 \<longrightarrow>
                 call_attempt cfg srv c w0 = (Inl e, w\<lparr>sent := sent w @ [login_request cfg]\<rparr>)
               \<and> invoke cfg srv c w0
                   = (if wrapper_retries e
                      then invoke cfg srv c (w\<lparr>sent := sent w @ [login_request cfg]\<rparr>)
                      else Some (Inl e, w\<lparr>sent := sent w @ [login_request cfg]\<rparr>)))"
proof -
  have nr: "\<not> raises_for_status r"
    using assms(2) by (simp add: is_2xx_passes)
  obtain e where lg: "login cfg srv w = (Inl e, w\<lparr>sent := sent w @ [login_request cfg]\<rparr>)"
    and ce: "check_error content ''authenticating'' = Inl e"
    using login_error_indicator [where srv = srv, OF assms(1) nr assms(3,4)] by blast
  have pe: "e = PardotException cd ''authenticating'' msg content"
    if "embedded_error content = Some (cd, msg)" for cd msg
    using check_error_embedded [OF that, of "''authenticating''"] ce by simp
  have lgv: "login cfg srv (w\<lparr>redis_val := v\<rparr>)
           = (Inl e, w\<lparr>redis_val := v, sent := sent w @ [login_request cfg]\<rparr>)" for v
    using assms(1,3) nr ce
    by (simp add: login_def transport_def login_request_def)
  have ci: "client_init cfg srv w
              = (Inl e,
                 w\<lparr>redis_val := Some (case redis_val w of None \<Rightarrow> 0 | Some k \<Rightarrow> k),
                   sent := sent w @ [login_request cfg]\<rparr>)"
    if "\<not> limit_reached (daily_limit cfg) (case redis_val w of None \<Rightarrow> 0 | Some k \<Rightarrow> k)"
  proof (cases "redis_val w")
    case None
    then show ?thesis
      using that lgv [of "Some 0"] by (simp add: client_init_def)
  next
    case (Some k)
    have "w\<lparr>redis_val := Some k\<rparr> = w"
      using Some by simp
    then show ?thesis
      using that Some lg by (simp add: client_init_def)
  qed
  have rl: "call_attempt cfg srv c w0 = (Inl e, w\<lparr>sent := sent w @ [login_request cfg]\<rparr>)
               \<and> invoke cfg srv c w0
                   = (if wrapper_retries e
                      then invoke cfg srv c (w\<lparr>sent := sent w @ [login_request cfg]\<rparr>)
                      else Some (Inl e, w\<lparr>sent := sent w @ [login_request cfg]\<rparr>))"
    if "redis_val w0 = Some n" and "limit_allows (daily_limit cfg) n"
      and "w = w0\<lparr>sent := sent w0 @ [call_request cfg c (call_url c w0) w0]\<rparr>"
      and "srv (sent w) = Some r1" and "is_2xx r1" and "body r1 = Some content1"
      and "embedded_error content1 = Some (cd1, msg1)" and "py_eq_int cd1 1"
    for w0 c n r1 content1 cd1 msg1
  proof -
    have s1: "srv (sent w0 @ [call_request cfg c (call_url c w0) w0]) = Some r1"
      using that(3,4) by simp
    have mr: "make_request cfg srv (call_method c) (call_url c w0) (build_params (call_kwargs c)) w0
                = (Inl e, w\<lparr>sent := sent w @ [login_request cfg]\<rparr>)"
      using reauth_attempt [where srv = srv, OF that(1,2) s1 that(5,6,7,8)] lg that(3)
      by (simp add: after_reauth_login_fails)
    have ca: "call_attempt cfg srv c w0 = (Inl e, w\<lparr>sent := sent w @ [login_request cfg]\<rparr>)"
      by (rule call_attempt_raise [OF mr])
    show ?thesis
      using ca invoke_after_raise [OF ca] by simp
  qed
  show ?thesis
    using lg pe ci rl by blast
qed

text \<open>The login response is
  \<^verbatim>\<open>{"err": "Invalid credentials", "@attributes": {"err_code": 15}}\<close>: the
  constructor raises the API exception with code 15, and the only transport call is the
  login. The same response to a re-login inside a \<^verbatim>\<open>describe\<close> ends the call with
  that exception after the first request and the login.\<close>

theorem login_error_indicator_raises_witness:
  "client_init cfg_limit5 (scripted [ok_response (err_body ''Invalid credentials'' 15), ok_response payload]) w_fresh
     = (Inl (PardotException (JInt 15) ''authenticating'' (JStr ''Invalid credentials'')
               (err_body ''Invalid credentials'' 15)),
        \<lparr>redis_val = Some 0, api_key = JNull, api_version = JNull, sent = [login_request cfg_limit5]\<rparr>)
   \<and> invoke cfg_limit5
        (scripted [ok_response (err_body ''Invalid API key'' 1),
                   ok_response (err_body ''Invalid credentials'' 15), ok_response payload])
        (Describe ''prospect'' []) (w_session 1)
      = Some (Inl (PardotException (JInt 15) ''authenticating'' (JStr ''Invalid credentials'')
                     (err_body ''Invalid credentials'' 15)),
              \<lparr>redis_val = Some 1, api_key = JStr ''key0'', api_version = JStr ''3'',
                sent = [ApiRequest ''get'' \<lparr>endpoint = ''prospect'', version = JStr ''3'', action = ''describe''\<rparr>
                          (JStr ''key0'', ''uk'') [(''format'', JStr ''json''), (''output'', JStr ''bulk'')],
                        login_request cfg_limit5]\<rparr>)"
proof -
  let ?srv = "scripted [ok_response (err_body ''Invalid credentials'' 15), ok_response payload]"
  let ?srv2 = "scripted [ok_response (err_body ''Invalid API key'' 1),
                   ok_response (err_body ''Invalid credentials'' 15), ok_response payload]"
  let ?c = "Describe ''prospect'' []"
  let ?req = "call_request cfg_limit5 ?c (call_url ?c (w_session 1)) (w_session 1)"
  let ?w1 = "(w_session 1)\<lparr>sent := sent (w_session 1) @ [?req]\<rparr>"
  let ?r = "\<lparr>status_code = 200, body = Some (err_body ''Invalid credentials'' 15)\<rparr>"
  let ?r1 = "\<lparr>status_code = 200, body = Some (err_body ''Invalid API key'' 1)\<rparr>"
  let ?e = "PardotException (JInt 15) ''authenticating'' (JStr ''Invalid credentials'')
               (err_body ''Invalid credentials'' 15)"
  have h1: "?srv (sent w_fresh @ [login_request cfg_limit5]) = Some ?r"
    by (simp add: scripted_def w_fresh_def ok_response_def)
  have k1: "?srv2 (sent ?w1 @ [login_request cfg_limit5]) = Some ?r"
    by (simp add: scripted_def w_session_def ok_response_def)
  have h2: "is_2xx ?r" by (simp add: is_2xx_def)
  have h3: "body ?r = Some (err_body ''Invalid credentials'' 15)" by simp
  have h4: "error_indicator (err_body ''Invalid credentials'' 15)"
    by (simp add: error_indicator_def err_body_def py_get_def)
  have h5: "embedded_error (err_body ''Invalid credentials'' 15) = Some (JInt 15, JStr ''Invalid credentials'')"
    by (simp add: embedded_error_def err_body_def py_get_def err_code_of_def)
  have h6: "\<not> limit_reached (daily_limit cfg_limit5) (case redis_val w_fresh of None \<Rightarrow> 0 | Some k \<Rightarrow> k)"
    by (simp add: limit_reached_def cfg_limit5_def w_fresh_def)
  have a: "client_init cfg_limit5 ?srv w_fresh
     = (Inl ?e, \<lparr>redis_val = Some 0, api_key = JNull, api_version = JNull, sent = [login_request cfg_limit5]\<rparr>)"
  proof -
    obtain e where e1: "\<forall>cd msg. embedded_error (err_body ''Invalid credentials'' 15) = Some (cd, msg) \<longrightarrow>
                 e = PardotException cd ''authenticating'' msg (err_body ''Invalid credentials'' 15)"
      and e2: "\<not> limit_reached (daily_limit cfg_limit5) (case redis_val w_fresh of None \<Rightarrow> 0 | Some k \<Rightarrow> k) \<longrightarrow>
                 client_init cfg_limit5 ?srv w_fresh
                   = (Inl e,
                      w_fresh\<lparr>redis_val := Some (case redis_val w_fresh of None \<Rightarrow> 0 | Some k \<Rightarrow> k),
                        sent := sent w_fresh @ [login_request cfg_limit5]\<rparr>)"
      using login_error_indicator_raises [where srv = ?srv, OF h1 h2 h3 h4] by blast
    have "e = ?e"
      using e1 h5 by blast
    then show ?thesis
      using e2 h6 by (simp add: w_fresh_def)
  qed
  have g1: "redis_val (w_session 1) = Some 1" by (simp add: w_session_def)
  have g2: "limit_allows (daily_limit cfg_limit5) 1" by (simp add: limit_allows_def cfg_limit5_def)
  have g3: "?srv2 (sent ?w1) = Some ?r1"
    by (simp add: scripted_def w_session_def ok_response_def)
  have g4: "is_2xx ?r1" by (simp add: is_2xx_def)
  have g5: "body ?r1 = Some (err_body ''Invalid API key'' 1)" by simp
  have g6: "embedded_error (err_body ''Invalid API key'' 1) = Some (JInt 1, JStr ''Invalid API key'')"
    by (simp add: embedded_error_def err_body_def py_get_def err_code_of_def)
  have g7: "py_eq_int (JInt 1) 1" by simp
  have nw: "\<not> wrapper_retries ?e"
    by (simp add: wrapper_retries_iff)
  have b: "invoke cfg_limit5 ?srv2 ?c (w_session 1)
      = Some (Inl ?e, ?w1\<lparr>sent := sent ?w1 @ [login_request cfg_limit5]\<rparr>)"
  proof -
    obtain e where e1: "\<forall>cd msg. embedded_error (err_body ''Invalid credentials'' 15) = Some (cd, msg) \<longrightarrow>
                 e = PardotException cd ''authenticating'' msg (err_body ''Invalid credentials'' 15)"
      and e4: "\<forall>w0 c n r1 content1 cd1 msg1.
                 redis_val w0 = Some n \<and> limit_allows (daily_limit cfg_limit5) n
                 \<and> ?w1 = w0\<lparr>sent := sent w0 @ [call_request cfg_limit5 c (call_url c w0) w0]\<rparr>
                 \<and> ?srv2 (sent ?w1) = Some r1 \<and> is_2xx r1 \<and> body r1 = Some content1
                 \<and> embedded_error content1 = Some (cd1, msg1) \<and> py_eq_int cd1 1 \<longrightarrow>
                 call_attempt cfg_limit5 ?srv2 c w0 = (Inl e, ?w1\<lparr>sent := sent ?w1 @ [login_request cfg_limit5]\<rparr>)
               \<and> invoke cfg_limit5 ?srv2 c w0
                   = (if wrapper_retries e
                      then invoke cfg_limit5 ?srv2 c (?w1\<lparr>sent := sent ?w1 @ [login_request cfg_limit5]\<rparr>)
                      else Some (Inl e, ?w1\<lparr>sent := sent ?w1 @ [login_request cfg_limit5]\<rparr>))"
      using login_error_indicator_raises [where srv = ?srv2 and w = ?w1, OF k1 h2 h3 h4] by blast
    have ee: "e = ?e"
      using e1 h5 by blast
    have "invoke cfg_limit5 ?srv2 ?c (w_session 1)
                   = (if wrapper_retries e
                      then invoke cfg_limit5 ?srv2 ?c (?w1\<lparr>sent := sent ?w1 @ [login_request cfg_limit5]\<rparr>)
                      else Some (Inl e, ?w1\<lparr>sent := sent ?w1 @ [login_request cfg_limit5]\<rparr>))"
      using e4 g1 g2 g3 g4 g5 g6 g7 by blast
    then show ?thesis
      using ee nw by simp
  qed
  show ?thesis
    using a b
    by (simp add: call_request_def get_auth_header_def build_params_def w_session_def cfg_limit5_def
        del: invoke.simps)
qed

end
